theory Spec2Isabelle
  imports Complex_Main "HOL-Library.Log_Nat"
begin

section \<open>JavaScript numbers\<close>

text \<open>
  The server is JavaScript, so every number it handles is an IEEE 754 double. A finite
  double is modelled by the real number it denotes; \<open>to_double\<close> rounds an exact value
  to the nearest double, ties to the even mantissa, with gradual underflow below
  \<open>2 powi - 1022\<close> and overflow to infinity. Negative zero is identified with zero:
  nothing the server does distinguishes them.
\<close>

datatype jsnum = NaN | PosInf | NegInf | Num real

definition round_half_even :: "real \<Rightarrow> int" where
  "round_half_even q =
     (if q - of_int \<lfloor>q\<rfloor> < 1 / 2 then \<lfloor>q\<rfloor>
      else if 1 / 2 < q - of_int \<lfloor>q\<rfloor> then \<lfloor>q\<rfloor> + 1
      else if even \<lfloor>q\<rfloor> then \<lfloor>q\<rfloor> else \<lfloor>q\<rfloor> + 1)"

text \<open>The exponent \<open>e\<close> with \<open>2 powi e \<le> a < 2 powi (e + 1)\<close>, for positive \<open>a\<close>.\<close>

definition binade :: "real \<Rightarrow> int" where
  "binade a = (if 1 \<le> a then bitlen \<lfloor>a\<rfloor> - 1 else - bitlen (\<lceil>1 / a\<rceil> - 1))"

definition ulp_exp :: "real \<Rightarrow> int" where
  "ulp_exp a = max (binade a) (- 1022) - 52"

definition assemble :: "bool \<Rightarrow> int \<Rightarrow> int \<Rightarrow> jsnum" where
  "assemble neg k m =
     (if 971 < k \<or> (k = 971 \<and> 2 ^ 53 \<le> m) then (if neg then NegInf else PosInf)
      else Num ((if neg then - 1 else 1) * (of_int m * 2 powi k)))"

definition round_at :: "bool \<Rightarrow> real \<Rightarrow> int \<Rightarrow> jsnum" where
  "round_at neg a k = assemble neg k (round_half_even (a / 2 powi k))"

definition to_double :: "real \<Rightarrow> jsnum" where
  "to_double x = (if x = 0 then Num 0 else round_at (x < 0) \<bar>x\<bar> (ulp_exp \<bar>x\<bar>))"

text \<open>\<open>Number.isInteger\<close>, \<open>isNaN\<close>, and the comparisons \<open><=\<close> and \<open><\<close>.\<close>

fun Number_isInteger :: "jsnum \<Rightarrow> bool" where
  "Number_isInteger (Num r) = (of_int \<lfloor>r\<rfloor> = r)"
| "Number_isInteger _ = False"

fun isNaN :: "jsnum \<Rightarrow> bool" where
  "isNaN NaN = True"
| "isNaN _ = False"

fun js_le :: "jsnum \<Rightarrow> jsnum \<Rightarrow> bool" where
  "js_le NaN _ = False"
| "js_le _ NaN = False"
| "js_le NegInf _ = True"
| "js_le _ PosInf = True"
| "js_le PosInf _ = False"
| "js_le _ NegInf = False"
| "js_le (Num a) (Num b) = (a \<le> b)"

fun js_lt :: "jsnum \<Rightarrow> jsnum \<Rightarrow> bool" where
  "js_lt NaN _ = False"
| "js_lt _ NaN = False"
| "js_lt PosInf _ = False"
| "js_lt _ NegInf = False"
| "js_lt NegInf _ = True"
| "js_lt _ PosInf = True"
| "js_lt (Num a) (Num b) = (a < b)"

section \<open>Strings and numeric literals\<close>

text \<open>
  Strings are lists of code units below 256. The white space of \<open>trim\<close>,
  \<open>Number\<close> and \<open>parseInt\<close> in that range: tab, line feed, vertical tab, form feed,
  carriage return, space and no-break space.
\<close>

definition is_ws :: "char \<Rightarrow> bool" where
  "is_ws c = (c \<in> set [CHR 0x09, CHR 0x0A, CHR 0x0B, CHR 0x0C, CHR 0x0D, CHR 0x20, CHR 0xA0])"

definition trim_start :: "string \<Rightarrow> string" where
  "trim_start s = dropWhile is_ws s"

definition trim :: "string \<Rightarrow> string" where
  "trim s = rev (dropWhile is_ws (rev (dropWhile is_ws s)))"

definition is_digit :: "char \<Rightarrow> bool" where
  "is_digit c = (48 \<le> (of_char c :: nat) \<and> (of_char c :: nat) \<le> 57)"

definition digit_val :: "char \<Rightarrow> nat" where
  "digit_val c = of_char c - 48"

definition digits_val :: "string \<Rightarrow> nat" where
  "digits_val ds = foldl (\<lambda>n c. 10 * n + digit_val c) 0 ds"

definition strip_sign :: "string \<Rightarrow> bool \<times> string" where
  "strip_sign s =
     (case s of
        [] \<Rightarrow> (False, [])
      | c # r \<Rightarrow> if c = CHR ''-'' then (True, r) else if c = CHR ''+'' then (False, r)
                 else (False, s))"

text \<open>Digits of the prefixed literals \<open>0x\<close>, \<open>0o\<close>, \<open>0b\<close>.\<close>

definition radix_digit :: "char \<Rightarrow> nat option" where
  "radix_digit c =
     (if is_digit c then Some (digit_val c)
      else if 97 \<le> (of_char c :: nat) \<and> (of_char c :: nat) \<le> 102 then Some (of_char c - 87)
      else if 65 \<le> (of_char c :: nat) \<and> (of_char c :: nat) \<le> 70 then Some (of_char c - 55)
      else None)"

fun radix_value :: "nat \<Rightarrow> nat \<Rightarrow> string \<Rightarrow> nat option" where
  "radix_value b acc [] = Some acc"
| "radix_value b acc (c # cs) =
     (case radix_digit c of
        None \<Rightarrow> None
      | Some d \<Rightarrow> if d < b then radix_value b (b * acc + d) cs else None)"

definition non_decimal_literal :: "string \<Rightarrow> nat option" where
  "non_decimal_literal t =
     (case t of
        z # x # ds \<Rightarrow>
          if z \<noteq> CHR ''0'' \<or> ds = [] then None
          else if x = CHR ''x'' \<or> x = CHR ''X'' then radix_value 16 0 ds
          else if x = CHR ''o'' \<or> x = CHR ''O'' then radix_value 8 0 ds
          else if x = CHR ''b'' \<or> x = CHR ''B'' then radix_value 2 0 ds
          else None
      | _ \<Rightarrow> None)"

text \<open>
  An exponent part: empty (exponent 0), or \<open>e\<close> or \<open>E\<close>, an optional sign and at
  least one digit.
\<close>

definition exponent_part :: "string \<Rightarrow> int option" where
  "exponent_part r =
     (case r of
        [] \<Rightarrow> Some 0
      | c # t \<Rightarrow>
          if c = CHR ''e'' \<or> c = CHR ''E'' then
            (case strip_sign t of
               (neg, ds) \<Rightarrow>
                 if ds \<noteq> [] \<and> list_all is_digit ds
                 then Some (if neg then - int (digits_val ds) else int (digits_val ds))
                 else None)
          else None)"

text \<open>
  An unsigned decimal literal: digits, an optional point and fraction digits (at least
  one digit on one side of the point), an optional exponent. The result \<open>(d, e)\<close>
  stands for the exact value \<open>d * 10 powi e\<close>.
\<close>

definition decimal_literal :: "string \<Rightarrow> (nat \<times> int) option" where
  "decimal_literal u =
     (case dropWhile is_digit u of
        [] \<Rightarrow> if u = [] then None else Some (digits_val u, 0)
      | c # t \<Rightarrow>
          if c = CHR ''.'' then
            (if takeWhile is_digit u = [] \<and> takeWhile is_digit t = [] then None
             else (case exponent_part (dropWhile is_digit t) of
                     None \<Rightarrow> None
                   | Some e \<Rightarrow>
                       Some (digits_val (takeWhile is_digit u @ takeWhile is_digit t),
                             e - int (length (takeWhile is_digit t)))))
          else if takeWhile is_digit u = [] then None
          else (case exponent_part (c # t) of
                  None \<Rightarrow> None
                | Some e \<Rightarrow> Some (digits_val (takeWhile is_digit u), e)))"

definition decimal_value :: "nat \<Rightarrow> int \<Rightarrow> real" where
  "decimal_value d e = (if 0 \<le> e then of_nat d * 10 ^ nat e else of_nat d / 10 ^ nat (- e))"

text \<open>\<open>Number(s)\<close> for a string \<open>s\<close>.\<close>

definition StringToNumber :: "string \<Rightarrow> jsnum" where
  "StringToNumber s =
     (if trim s = [] then Num 0
      else case non_decimal_literal (trim s) of
        Some n \<Rightarrow> to_double (of_nat n)
      | None \<Rightarrow>
          (case strip_sign (trim s) of
             (neg, u) \<Rightarrow>
               if u = ''Infinity'' then (if neg then NegInf else PosInf)
               else (case decimal_literal u of
                       None \<Rightarrow> NaN
                     | Some (d, e) \<Rightarrow>
                         to_double (if neg then - decimal_value d e else decimal_value d e))))"

text \<open>
  The values the server passes to \<open>Number\<close>: a path segment (a string), or a number
  that \<open>Number\<close> has produced already.
\<close>

datatype prim = PStr string | PNum jsnum

fun Number :: "prim \<Rightarrow> jsnum" where
  "Number (PStr s) = StringToNumber s"
| "Number (PNum n) = n"

text \<open>\<open>parseInt(s, 10)\<close>.\<close>

definition parseInt :: "string \<Rightarrow> jsnum" where
  "parseInt s =
     (case strip_sign (trim_start s) of
        (neg, u) \<Rightarrow>
          if takeWhile is_digit u = [] then NaN
          else to_double (if neg then - of_nat (digits_val (takeWhile is_digit u))
                          else of_nat (digits_val (takeWhile is_digit u))))"

section \<open>Numbers to strings\<close>

definition digit_char :: "nat \<Rightarrow> char" where
  "digit_char d = ''0123456789'' ! d"

function show_nat :: "nat \<Rightarrow> string" where
  "show_nat n = (if n < 10 then [digit_char n] else show_nat (n div 10) @ [digit_char (n mod 10)])"
  by pat_completeness auto
termination
  by (relation "measure (\<lambda>n. n)") auto

declare show_nat.simps [simp del]

section \<open>Values, requests and the runtime\<close>

text \<open>
  The values the server receives as a parsed request body or decodes from the
  \<open>body\<close> query parameter, and the ones it serialises into a response.
\<close>

datatype jsval =
    JNull
  | JBool bool
  | JNum jsnum
  | JStr string
  | JArr "jsval list"
  | JObj "(string \<times> jsval) list"

text \<open>
  What the handlers take from the runtime and cannot compute themselves: the JSON decoder
  (\<open>None\<close> when \<open>JSON.parse\<close> throws), the digits of a number that is not an
  integer below \<open>10 ^ 21\<close>, the ISO rendering of an instant, the value of
  \<open>res.statusMessage\<close> when the handler reads it (\<open>None\<close> for \<open>undefined\<close>),
  the result of \<open>Math.random()\<close>, and the two clock readings in milliseconds.
\<close>

record env =
  JSON_parse :: "string \<Rightarrow> jsval option"
  Number_toString_frac :: "real \<Rightarrow> string"
  Date_toISOString :: "int \<Rightarrow> string"
  res_statusMessage :: "string option"
  Math_random :: real
  clock_start :: int
  clock_reply :: int

text \<open>
  A request as a handler sees it: the path parameter (\<open>req.params.code\<close> or
  \<open>req.params.range\<close>), the method, the query parameters \<open>sleep\<close>, \<open>body\<close> and
  \<open>to\<close> as strings (\<open>None\<close> when absent), the parsed request body (\<open>None\<close> for
  \<open>undefined\<close>) and the \<open>Accept\<close> header. Query values that the framework turns into
  arrays or objects are not modelled.
\<close>

record request =
  param :: string
  method_of :: string
  query_sleep :: "string option"
  query_body :: "string option"
  query_to :: "string option"
  req_body :: "jsval option"
  accept_header :: "string option"

text \<open>
  What a handler does besides answering, listed in the order it happens: \<open>Slept ms\<close> for
  \<open>await new Promise((resolve) => setTimeout(resolve, ms))\<close>, \<open>Parsed s\<close> for a call of
  \<open>tryParseJSON(s)\<close>, \<open>Picked\<close> for a call of \<open>Math.random()\<close>.
\<close>

datatype event = Slept jsnum | Parsed string | Picked

text \<open>
  \<open>Send\<close> is \<open>res.send\<close> of a string, \<open>Text\<close> is \<open>res.type('text/plain').send\<close>,
  \<open>Json\<close> is \<open>res.json\<close>.
\<close>

datatype reply = Send string | Text string | Json jsval

text \<open>
  A handler passes the request on (\<open>next()\<close>), answers with a status and a reply,
  redirects, or fails because it set no status (\<open>res.status(undefined)\<close>).
\<close>

datatype outcome = Next | Reply jsnum reply | Redirect jsnum string | Fault

fun status_of :: "outcome \<Rightarrow> jsnum option" where
  "status_of (Reply c r) = Some c"
| "status_of (Redirect c t) = Some c"
| "status_of _ = None"

definition Number_toString :: "env \<Rightarrow> jsnum \<Rightarrow> string" where
  "Number_toString E n =
     (case n of
        NaN \<Rightarrow> ''NaN''
      | PosInf \<Rightarrow> ''Infinity''
      | NegInf \<Rightarrow> ''-Infinity''
      | Num r \<Rightarrow>
          if of_int \<lfloor>r\<rfloor> = r \<and> \<bar>r\<bar> < 10 ^ 21
          then (if r < 0 then ''-'' else []) @ show_nat (nat \<bar>\<lfloor>r\<rfloor>\<bar>)
          else Number_toString_frac E r)"

section \<open>The helpers of index.js\<close>

definition isValidStatusCode :: "prim \<Rightarrow> bool" where
  "isValidStatusCode code =
     (Number_isInteger (Number code) \<and> js_le (Num 100) (Number code) \<and> js_le (Number code) (Num 599))"

definition tryParseJSON :: "env \<Rightarrow> string \<Rightarrow> jsval option" where
  "tryParseJSON E str = (case JSON_parse E str of Some v \<Rightarrow> Some v | None \<Rightarrow> None)"

definition statusDescriptions :: "(jsnum \<times> string) list" where
  "statusDescriptions =
    [(Num 200, ''OK: The request has succeeded.''),
     (Num 201, ''Created: The request has been fulfilled and resulted in a new resource being created.''),
     (Num 202, ''Accepted: The request has been accepted for processing, but the processing has not been completed.''),
     (Num 204, ''No Content: The server successfully processed the request, but is not returning any content.''),
     (Num 301, ''Moved Permanently: The resource has been moved to a new URL.''),
     (Num 302, ''Found: The resource resides temporarily under a different URL.''),
     (Num 400, ''Bad Request: The server could not understand the request due to invalid syntax.''),
     (Num 401, ''Unauthorized: The client must authenticate itself to get the requested response.''),
     (Num 403, ''Forbidden: The client does not have access rights to the content.''),
     (Num 404, ''Not Found: The server can not find the requested resource.''),
     (Num 500, ''Internal Server Error: The server has encountered a situation it doesn't know how to handle.''),
     (Num 502, ''Bad Gateway: The server was acting as a gateway or proxy and received an invalid response.''),
     (Num 503, ''Service Unavailable: The server is not ready to handle the request.''),
     (Num 504, ''Gateway Timeout: The server is acting as a gateway and cannot get a response in time.'')]"

text \<open>
  \<open>statusDescriptions[code] || ''\<close>: the property looked up is the string of the
  number, which names an entry exactly when the number is one of the keys.
\<close>

definition getStatusDescription :: "jsnum \<Rightarrow> string" where
  "getStatusDescription code =
     (case map_of statusDescriptions code of Some d \<Rightarrow> d | None \<Rightarrow> [])"

definition getMDNLink :: "env \<Rightarrow> jsnum \<Rightarrow> string" where
  "getMDNLink E code =
     ''https://developer.mozilla.org/en-US/docs/Web/HTTP/Status/'' @ Number_toString E code"

section \<open>Parsing a range of status codes\<close>

text \<open>\<open>s.split(c)\<close>: at least one piece, the empty string between adjacent separators.\<close>

fun split_on :: "char \<Rightarrow> string \<Rightarrow> string list" where
  "split_on c [] = [[]]"
| "split_on c (x # xs) =
     (if x = c then [] # split_on c xs
      else (case split_on c xs of p # ps \<Rightarrow> (x # p) # ps | [] \<Rightarrow> [[x]]))"

text \<open>
  The inner loop \<open>for (let i = start; i <= end; i++) codes.push(i)\<close>. It runs on
  integers between 100 and 599 only, where \<open>i++\<close> is exact.
\<close>

function range_loop :: "real \<Rightarrow> real \<Rightarrow> jsnum list \<Rightarrow> jsnum list" where
  "range_loop i stop codes = (if i \<le> stop then range_loop (i + 1) stop (codes @ [Num i]) else codes)"
  by pat_completeness auto
termination
proof (relation "measure (\<lambda>(i, stop, codes). nat \<lfloor>stop - i + 1\<rfloor>)")
  show "wf (measure (\<lambda>(i, stop, codes). nat \<lfloor>stop - i + 1\<rfloor>))"
    by simp
next
  fix i stop :: real and codes :: "jsnum list"
  assume le: "i \<le> stop"
  have a: "stop - (i + 1) + 1 = stop - i"
    by simp
  have b: "\<lfloor>stop - i + 1\<rfloor> = \<lfloor>stop - i\<rfloor> + 1"
    by simp
  have c: "0 \<le> \<lfloor>stop - i\<rfloor>"
    using le by simp
  have "nat \<lfloor>stop - (i + 1) + 1\<rfloor> < nat \<lfloor>stop - i + 1\<rfloor>"
    unfolding a b using c by linarith
  then show "((i + 1, stop, codes @ [Num i]), (i, stop, codes))
      \<in> measure (\<lambda>(i, stop, codes). nat \<lfloor>stop - i + 1\<rfloor>)"
    by (simp only: in_measure prod.case)
qed

declare range_loop.simps [simp del]

text \<open>The body of the loop over the comma-separated parts.\<close>

definition parse_part :: "string \<Rightarrow> jsnum list \<Rightarrow> jsnum list" where
  "parse_part part codes =
     (if CHR ''-'' \<in> set part then
        (case map (\<lambda>p. Number (PStr p)) (split_on CHR ''-'' part) of
           start # stop # rest \<Rightarrow>
             if Number_isInteger start \<and> Number_isInteger stop \<and> js_le start stop \<and>
                isValidStatusCode (PNum start) \<and> isValidStatusCode (PNum stop)
             then (case (start, stop) of
                     (Num a, Num b) \<Rightarrow> range_loop a b codes
                   | _ \<Rightarrow> codes)
             else codes
         | _ \<Rightarrow> codes)
      else if isValidStatusCode (PNum (Number (PStr part))) then codes @ [Number (PStr part)]
      else codes)"

fun parse_parts :: "string list \<Rightarrow> jsnum list \<Rightarrow> jsnum list" where
  "parse_parts [] codes = codes"
| "parse_parts (part # parts) codes = parse_parts parts (parse_part part codes)"

definition parseStatusCodeRange :: "string \<Rightarrow> jsnum list" where
  "parseStatusCodeRange rangeStr = parse_parts (split_on CHR '','' rangeStr) []"

section \<open>The blocks the handlers share\<close>

text \<open>The optional delay: \<open>if (sleep) { const ms = parseInt(sleep, 10); ... }\<close>.\<close>

definition optional_delay :: "string option \<Rightarrow> event list" where
  "optional_delay sleep =
     (case sleep of
        None \<Rightarrow> []
      | Some s \<Rightarrow>
          if s = [] then []
          else if \<not> isNaN (parseInt s) \<and> js_lt (Num 0) (parseInt s) then [Slept (parseInt s)]
          else [])"

text \<open>Truthiness, \<open>Object.keys(v).length\<close>, \<open>typeof v === 'object'\<close> and \<open>String(v)\<close>.\<close>

fun truthy :: "jsval \<Rightarrow> bool" where
  "truthy JNull = False"
| "truthy (JBool b) = b"
| "truthy (JNum n) = (n \<noteq> NaN \<and> n \<noteq> Num 0)"
| "truthy (JStr s) = (s \<noteq> [])"
| "truthy (JArr xs) = True"
| "truthy (JObj kvs) = True"

fun keys_length :: "jsval \<Rightarrow> nat" where
  "keys_length (JObj kvs) = length kvs"
| "keys_length (JArr xs) = length xs"
| "keys_length (JStr s) = length s"
| "keys_length v = 0"

fun typeof_object :: "jsval \<Rightarrow> bool" where
  "typeof_object JNull = True"
| "typeof_object (JArr xs) = True"
| "typeof_object (JObj kvs) = True"
| "typeof_object v = False"

fun String_js :: "env \<Rightarrow> jsval \<Rightarrow> string" and join_js :: "env \<Rightarrow> jsval list \<Rightarrow> string" where
  "String_js E JNull = ''null''"
| "String_js E (JBool b) = (if b then ''true'' else ''false'')"
| "String_js E (JNum n) = Number_toString E n"
| "String_js E (JStr s) = s"
| "String_js E (JArr xs) = join_js E xs"
| "String_js E (JObj kvs) = ''[object Object]''"
| "join_js E [] = []"
| "join_js E [x] = (if x = JNull then [] else String_js E x)"
| "join_js E (x # y # ys) = (if x = JNull then [] else String_js E x) @ '','' @ join_js E (y # ys)"

text \<open>\<open>a ?? b\<close>, with \<open>None\<close> for \<open>undefined\<close>.\<close>

definition nullish_or :: "jsval option \<Rightarrow> jsval \<Rightarrow> jsval" where
  "nullish_or a b = (case a of None \<Rightarrow> b | Some v \<Rightarrow> if v = JNull then b else v)"

text \<open>The custom response body (\<open>None\<close> for \<open>undefined\<close>), and the decoding it costs.\<close>

definition custom_body :: "env \<Rightarrow> request \<Rightarrow> jsval option" where
  "custom_body E req =
     (case query_body req of
        Some bodyParam \<Rightarrow> Some (nullish_or (tryParseJSON E bodyParam) (JStr bodyParam))
      | None \<Rightarrow>
          if method_of req \<in> set [''POST'', ''PUT'', ''PATCH''] \<and>
             (case req_body req of None \<Rightarrow> False | Some b \<Rightarrow> truthy b \<and> 0 < keys_length b)
          then req_body req
          else None)"

definition body_events :: "request \<Rightarrow> event list" where
  "body_events req = (case query_body req of Some bodyParam \<Rightarrow> [Parsed bodyParam] | None \<Rightarrow> [])"

definition send_custom :: "env \<Rightarrow> jsnum \<Rightarrow> jsval \<Rightarrow> outcome" where
  "send_custom E statusCode customBody =
     (if typeof_object customBody then Reply statusCode (Json customBody)
      else Reply statusCode (Text (String_js E customBody)))"

text \<open>\<open>s.includes(t)\<close> and \<open>x || ''\<close>.\<close>

fun str_includes :: "string \<Rightarrow> string \<Rightarrow> bool" where
  "str_includes [] t = (t = [])"
| "str_includes (c # cs) t = (take (length t) (c # cs) = t \<or> str_includes cs t)"

definition or_empty :: "string option \<Rightarrow> string" where
  "or_empty x = (case x of None \<Rightarrow> [] | Some s \<Rightarrow> s)"

text \<open>
  The answer without a custom body in the first copy of the server (lines 111 to 134 and
  198 to 221): content negotiation on the \<open>Accept\<close> header.
\<close>

definition negotiated_reply :: "env \<Rightarrow> request \<Rightarrow> jsnum \<Rightarrow> outcome" where
  "negotiated_reply E req statusCode =
     (if str_includes (or_empty (accept_header req)) ''application/json''
      then Reply statusCode (Json (JObj
             [(''code'', JNum statusCode),
              (''description'', JStr (or_empty (res_statusMessage E))),
              (''details'', JStr (getStatusDescription statusCode)),
              (''mdn'', JStr (getMDNLink E statusCode))]))
      else Reply statusCode
             (Text (trim (Number_toString E statusCode @ '' '' @ or_empty (res_statusMessage E)))))"

text \<open>
  The answer without a custom body in the second copy (lines 418 to 430 and 512 to 524):
  always the JSON envelope.
\<close>

definition duration_in_ms :: "env \<Rightarrow> jsnum" where
  "duration_in_ms E = to_double (of_int (clock_reply E - clock_start E))"

definition duration_in_seconds :: "env \<Rightarrow> jsnum" where
  "duration_in_seconds E = (case duration_in_ms E of Num d \<Rightarrow> to_double (d / 1000) | n \<Rightarrow> n)"

definition envelope :: "env \<Rightarrow> string \<Rightarrow> jsnum \<Rightarrow> string \<Rightarrow> outcome" where
  "envelope E requestedCode statusCode definition =
     Reply statusCode (Json (JObj
       [(''code'', JNum statusCode),
        (''requestedCode'', JStr requestedCode),
        (''description'', JStr (or_empty (res_statusMessage E))),
        (''definition'', JStr definition),
        (''details'', JStr (getStatusDescription statusCode)),
        (''mdn'', JStr (getMDNLink E statusCode)),
        (''startTime'', JStr (Date_toISOString E (clock_start E))),
        (''replyTime'', JStr (Date_toISOString E (clock_reply E))),
        (''duration_in_ms'', JNum (duration_in_ms E)),
        (''duration_in_seconds'', JNum (duration_in_seconds E))]))"

text \<open>\<open>codes[Math.floor(Math.random() * codes.length)]\<close>, \<open>None\<close> for \<open>undefined\<close>.\<close>

definition pick :: "env \<Rightarrow> jsnum list \<Rightarrow> jsnum option" where
  "pick E codes =
     (case to_double (Math_random E * of_nat (length codes)) of
        Num x \<Rightarrow> if 0 \<le> \<lfloor>x\<rfloor> \<and> nat \<lfloor>x\<rfloor> < length codes then Some (codes ! nat \<lfloor>x\<rfloor>) else None
      | _ \<Rightarrow> None)"

section \<open>The handlers\<close>

text \<open>
  src/index.js holds two copies of the server: lines 1 to 279 (suffix \<open>A\<close> below) and
  lines 280 to 594 (suffix \<open>B\<close>). They differ in the reserved path segments and in the
  answer without a custom body.
\<close>

definition reserved_A :: "string list" where
  "reserved_A = [''random'', ''echo'', ''health'', ''docs'', '''']"

definition reserved_B :: "string list" where
  "reserved_B = [''random'', ''echo'', ''health'', ''docs'', ''openapi.json'', ''openapi.yaml'', '''']"

text \<open>\<open>app.all('/:code')\<close>, lines 77 to 135.\<close>

definition code_route_A :: "env \<Rightarrow> request \<Rightarrow> event list \<times> outcome" where
  "code_route_A E req =
     (if param req \<in> set reserved_A then ([], Next)
      else if \<not> isValidStatusCode (PNum (Number (PStr (param req))))
      then ([], Reply (Num 400) (Send ''Invalid HTTP status code''))
      else (optional_delay (query_sleep req) @ body_events req,
            case custom_body E req of
              Some customBody \<Rightarrow> send_custom E (Number (PStr (param req))) customBody
            | None \<Rightarrow> negotiated_reply E req (Number (PStr (param req)))))"

text \<open>\<open>app.all('/:code')\<close>, lines 356 to 431.\<close>

definition code_route_B :: "env \<Rightarrow> request \<Rightarrow> event list \<times> outcome" where
  "code_route_B E req =
     (if param req \<in> set reserved_B then ([], Next)
      else if \<not> isValidStatusCode (PNum (Number (PStr (param req))))
      then ([], Reply (Num 400) (Send ''Invalid HTTP status code''))
      else (optional_delay (query_sleep req) @ body_events req,
            case custom_body E req of
              Some customBody \<Rightarrow> send_custom E (Number (PStr (param req))) customBody
            | None \<Rightarrow>
                envelope E (param req) (Number (PStr (param req)))
                  (getStatusDescription (Number (PStr (param req))))))"

text \<open>\<open>app.all('/random/:range')\<close>, lines 166 to 222.\<close>

definition random_route_A :: "env \<Rightarrow> request \<Rightarrow> event list \<times> outcome" where
  "random_route_A E req =
     (if parseStatusCodeRange (param req) = []
      then ([], Reply (Num 400) (Send ''Invalid range for random status codes''))
      else (Picked # optional_delay (query_sleep req) @ body_events req,
            case pick E (parseStatusCodeRange (param req)) of
              None \<Rightarrow> Fault
            | Some statusCode \<Rightarrow>
                (case custom_body E req of
                   Some customBody \<Rightarrow> send_custom E statusCode customBody
                 | None \<Rightarrow> negotiated_reply E req statusCode)))"

text \<open>\<open>app.all('/random/:range')\<close>, lines 462 to 525.\<close>

definition random_route_B :: "env \<Rightarrow> request \<Rightarrow> event list \<times> outcome" where
  "random_route_B E req =
     (if parseStatusCodeRange (param req) = []
      then ([], Reply (Num 400) (Send ''Invalid range for random status codes''))
      else (Picked # optional_delay (query_sleep req) @ body_events req,
            case pick E (parseStatusCodeRange (param req)) of
              None \<Rightarrow> Fault
            | Some statusCode \<Rightarrow>
                (case custom_body E req of
                   Some customBody \<Rightarrow> send_custom E statusCode customBody
                 | None \<Rightarrow> envelope E (param req) statusCode (getStatusDescription statusCode))))"

text \<open>\<open>app.get('/redirect/:code')\<close>, lines 241 to 257 and 544 to 560, the same in both copies.\<close>

definition redirect_route :: "request \<Rightarrow> outcome" where
  \<open>redirect_route req =
     (if \<not> isValidStatusCode (PNum (Number (PStr (param req)))) \<or>
         js_lt (Number (PStr (param req))) (Num 300) \<or> js_lt (Num 308) (Number (PStr (param req)))
      then Reply (Num 400) (Send ''Invalid redirect status code (must be 300-308)'')
      else (case query_to req of
              None \<Rightarrow> Reply (Num 400) (Send ''Missing "to" query parameter for redirect target'')
            | Some to \<Rightarrow>
                if to = [] then Reply (Num 400) (Send ''Missing "to" query parameter for redirect target'')
                else Redirect (Number (PStr (param req))) to))\<close>

section \<open>What the parser returns, in closed form\<close>

text \<open>
  The codes that one pass of the loop body pushes for one part. A part with a hyphen is
  cut at every hyphen by \<open>part.split('-')\<close>, and the destructuring
  \<open>const [start, end] = ...\<close> takes the first two pieces, whatever follows them.
\<close>

definition inclusive_sequence :: "jsnum \<Rightarrow> jsnum \<Rightarrow> jsnum list" where
  "inclusive_sequence start stop =
     (case (start, stop) of
        (Num a, Num b) \<Rightarrow> map (\<lambda>k. Num (of_int k)) [\<lfloor>a\<rfloor>..\<lfloor>b\<rfloor>]
      | _ \<Rightarrow> [])"

definition pushed_codes :: "string \<Rightarrow> jsnum list" where
  "pushed_codes part =
     (if CHR ''-'' \<in> set part then
        (case split_on CHR ''-'' part of
           s # e # rest \<Rightarrow>
             if Number_isInteger (Number (PStr s)) \<and> Number_isInteger (Number (PStr e)) \<and>
                js_le (Number (PStr s)) (Number (PStr e)) \<and>
                isValidStatusCode (PStr s) \<and> isValidStatusCode (PStr e)
             then inclusive_sequence (Number (PStr s)) (Number (PStr e))
             else []
         | _ \<Rightarrow> [])
      else if isValidStatusCode (PStr part) then [Number (PStr part)]
      else [])"

definition range_codes :: "string \<Rightarrow> jsnum list" where
  "range_codes s = concat (map pushed_codes (split_on CHR '','' s))"

section \<open>The range parser in the words of the specification\<close>



section \<open>Inputs for running the handlers\<close>

text \<open>
  A stand-in for \<open>JSON.parse\<close> that decodes seven texts as \<open>JSON.parse\<close> does and fails
  on every other text, an environment built on it, and a plain GET request for a path
  parameter.
\<close>

definition sample_JSON_parse :: "string \<Rightarrow> jsval option" where
  \<open>sample_JSON_parse s =
     map_of
       [(''null'', JNull),
        (''true'', JBool True),
        (''false'', JBool False),
        (''42'', JNum (Num 42)),
        (''"hi"'', JStr ''hi''),
        (''[1,2]'', JArr [JNum (Num 1), JNum (Num 2)]),
        (''{"a":1}'', JObj [(''a'', JNum (Num 1))])] s\<close>

definition test_env :: env where
  "test_env =
     \<lparr>JSON_parse = sample_JSON_parse,
      Number_toString_frac = (\<lambda>r. ''0.5''),
      Date_toISOString =
        (\<lambda>t. if t = 1000 then ''1970-01-01T00:00:01.000Z'' else ''1970-01-01T00:00:01.250Z''),
      res_statusMessage = None,
      Math_random = 1 / 2,
      clock_start = 1000,
      clock_reply = 1250\<rparr>"

definition get_request :: "string \<Rightarrow> request" where
  "get_request p =
     \<lparr>param = p, method_of = ''GET'', query_sleep = None, query_body = None, query_to = None,
      req_body = None, accept_header = None\<rparr>"


section \<open>Rounding to a double\<close>

lemma round_half_even_of_int: "round_half_even (of_int m) = m"
  by (simp add: round_half_even_def)


lemma round_half_even_floor: "\<lfloor>q\<rfloor> \<le> round_half_even q"
  unfolding round_half_even_def by auto

lemma binade_lower:
  assumes "0 < a"
  shows "2 powi (binade a) \<le> a"
proof (cases "1 \<le> a")
  case True
  then have pos: "0 < \<lfloor>a\<rfloor>"
    by linarith
  have ge: "1 \<le> bitlen \<lfloor>a\<rfloor>"
    using pos bitlen_eq_zero_iff [of "\<lfloor>a\<rfloor>"] bitlen_nonneg [of "\<lfloor>a\<rfloor>"] by linarith
  have "(2::int) ^ nat (bitlen \<lfloor>a\<rfloor> - 1) \<le> \<lfloor>a\<rfloor>"
    using bitlen_bounds [OF pos] by simp
  then have "real_of_int (2 ^ nat (bitlen \<lfloor>a\<rfloor> - 1)) \<le> of_int \<lfloor>a\<rfloor>"
    by (simp only: of_int_le_iff)
  also have "\<dots> \<le> a"
    by simp
  finally have "(2::real) ^ nat (bitlen \<lfloor>a\<rfloor> - 1) \<le> a"
    by simp
  moreover have "(2::real) powi (bitlen \<lfloor>a\<rfloor> - 1) = 2 ^ nat (bitlen \<lfloor>a\<rfloor> - 1)"
    using ge by (simp add: power_int_nonneg_exp)
  ultimately show ?thesis
    using True by (simp add: binade_def)
next
  case False
  then have lt: "a < 1"
    by simp
  then have "1 < 1 / a"
    using assms by simp
  then have pos: "0 < \<lceil>1 / a\<rceil> - 1"
    by linarith
  have "\<lceil>1 / a\<rceil> - 1 < 2 ^ nat (bitlen (\<lceil>1 / a\<rceil> - 1))"
    using bitlen_bounds [OF pos] by simp
  then have "\<lceil>1 / a\<rceil> \<le> 2 ^ nat (bitlen (\<lceil>1 / a\<rceil> - 1))"
    by linarith
  then have "real_of_int \<lceil>1 / a\<rceil> \<le> of_int (2 ^ nat (bitlen (\<lceil>1 / a\<rceil> - 1)))"
    by (simp only: of_int_le_iff)
  with le_of_int_ceiling [of "1 / a"]
  have "1 / a \<le> real_of_int (2 ^ nat (bitlen (\<lceil>1 / a\<rceil> - 1)))"
    by (rule order_trans)
  then have "1 / a \<le> 2 ^ nat (bitlen (\<lceil>1 / a\<rceil> - 1))"
    by simp
  then have "1 / 2 ^ nat (bitlen (\<lceil>1 / a\<rceil> - 1)) \<le> a"
    using assms by (simp add: field_simps)
  moreover have "(2::real) powi (- bitlen (\<lceil>1 / a\<rceil> - 1)) = 1 / 2 ^ nat (bitlen (\<lceil>1 / a\<rceil> - 1))"
    using bitlen_nonneg [of "\<lceil>1 / a\<rceil> - 1"] by (simp add: power_int_minus_divide power_int_nonneg_exp)
  ultimately show ?thesis
    using False by (simp add: binade_def)
qed

lemma to_double_of_int:
  assumes "0 \<le> n" "n < 2 ^ 53"
  shows "to_double (of_int n) = Num (of_int n)"
proof (cases "n = 0")
  case True
  then show ?thesis
    by (simp add: to_double_def)
next
  case False
  with assms have pos: "0 < n"
    by simp
  define j where "j = nat (53 - bitlen n)"
  have b1: "1 \<le> bitlen n"
    using pos bitlen_eq_zero_iff [of n] bitlen_nonneg [of n] by linarith
  have b2: "bitlen n \<le> 53"
    using assms bitlen_le_iff_power [of n 53] by simp
  have bin: "binade (of_int n) = bitlen n - 1"
    using pos by (simp add: binade_def)
  have k: "ulp_exp (of_int n) = - int j"
    using b1 b2 by (simp add: ulp_exp_def bin j_def)
  have scaled: "real_of_int n / 2 powi (- int j) = of_int (n * 2 ^ j)"
    by (simp add: power_int_minus_divide)
  have "round_at False (of_int n) (- int j) = Num (of_int n)"
    unfolding round_at_def scaled round_half_even_of_int
    by (simp add: assemble_def power_int_minus_divide)
  then show ?thesis
    using pos k by (simp add: to_double_def)
qed

lemma to_double_not_NaN: "\<not> isNaN (to_double x)"
  by (simp add: to_double_def round_at_def assemble_def)

lemma round_half_even_nonneg: "0 \<le> q \<Longrightarrow> 0 \<le> round_half_even q"
  using round_half_even_floor [of q] by (simp add: order_trans [of 0 "\<lfloor>q\<rfloor>"])

lemma to_double_nonpos:
  assumes "x \<le> 0"
  shows "\<not> js_lt (Num 0) (to_double x)"
proof (cases "x = 0")
  case True
  then show ?thesis
    by (simp add: to_double_def)
next
  case False
  with assms have neg: "x < 0"
    by simp
  have "0 \<le> \<bar>x\<bar> / 2 powi ulp_exp \<bar>x\<bar>"
    by simp
  then have "0 \<le> round_half_even (\<bar>x\<bar> / 2 powi ulp_exp \<bar>x\<bar>)"
    by (rule round_half_even_nonneg)
  then have "0 \<le> real_of_int (round_half_even (\<bar>x\<bar> / 2 powi ulp_exp \<bar>x\<bar>)) * 2 powi ulp_exp \<bar>x\<bar>"
    by simp
  then show ?thesis
    using neg by (simp add: to_double_def round_at_def assemble_def)
qed

lemma to_double_pos:
  assumes "1 \<le> x"
  shows "js_lt (Num 0) (to_double x)"
proof -
  have pos: "0 < x"
    using assms by simp
  define k where "k = ulp_exp x"
  have "0 \<le> binade x"
  proof -
    have "0 < \<lfloor>x\<rfloor>"
      using assms by linarith
    then have "1 \<le> bitlen \<lfloor>x\<rfloor>"
      using bitlen_eq_zero_iff [of "\<lfloor>x\<rfloor>"] bitlen_nonneg [of "\<lfloor>x\<rfloor>"] by linarith
    then show ?thesis
      using assms by (simp add: binade_def)
  qed
  then have k: "k = binade x - 52"
    by (simp add: k_def ulp_exp_def)
  have "2 powi binade x \<le> x"
    using pos by (rule binade_lower)
  then have "2 powi binade x / 2 powi k \<le> x / 2 powi k"
    by (simp add: divide_right_mono)
  moreover have "(2::real) powi binade x / 2 powi k = 2 ^ 52"
    by (simp add: k power_int_diff)
  ultimately have "(2::real) ^ 52 \<le> x / 2 powi k"
    by simp
  then have "(2::int) ^ 52 \<le> \<lfloor>x / 2 powi k\<rfloor>"
    by (simp add: le_floor_iff)
  then have "(2::int) ^ 52 \<le> round_half_even (x / 2 powi k)"
    using round_half_even_floor [of "x / 2 powi k"] by linarith
  then have m: "0 < round_half_even (x / 2 powi k)"
    by simp
  then have "0 < real_of_int (round_half_even (x / 2 powi k)) * 2 powi k"
    by simp
  then show ?thesis
    using pos by (simp add: to_double_def round_at_def assemble_def k_def)
qed




section \<open>Decimal strings\<close>

lemma below_ten: "d < (10::nat) \<Longrightarrow> d = 0 \<or> d = 1 \<or> d = 2 \<or> d = 3 \<or> d = 4 \<or> d = 5 \<or> d = 6 \<or> d = 7 \<or> d = 8 \<or> d = 9"
  by arith

lemma digit_char_is_digit: "d < 10 \<Longrightarrow> is_digit (digit_char d)"
  by (drule below_ten) (auto simp: digit_char_def is_digit_def)

lemma digit_val_digit_char: "d < 10 \<Longrightarrow> digit_val (digit_char d) = d"
  by (drule below_ten) (auto simp: digit_char_def digit_val_def)

lemma show_nat_digits: "list_all is_digit (show_nat n)"
proof (induction n rule: show_nat.induct)
  case (1 n)
  show ?case
  proof (cases "n < 10")
    case True
    then show ?thesis
      by (simp add: show_nat.simps [of n] digit_char_is_digit)
  next
    case False
    with 1 show ?thesis
      by (simp add: show_nat.simps [of n] digit_char_is_digit)
  qed
qed

lemma show_nat_not_Nil: "show_nat n \<noteq> []"
  by (simp add: show_nat.simps [of n])

lemma digits_val_snoc: "digits_val (ds @ [c]) = 10 * digits_val ds + digit_val c"
  by (simp add: digits_val_def)

lemma digits_val_show_nat: "digits_val (show_nat n) = n"
proof (induction n rule: show_nat.induct)
  case (1 n)
  show ?case
  proof (cases "n < 10")
    case True
    then show ?thesis
      by (simp add: show_nat.simps [of n] digits_val_def digit_val_digit_char)
  next
    case False
    with 1 show ?thesis
      by (simp add: show_nat.simps [of n] digits_val_snoc digit_val_digit_char)
  qed
qed

lemma digit_not_ws: "is_digit c \<Longrightarrow> \<not> is_ws c"
  by (auto simp: is_digit_def is_ws_def)

lemma digit_not_special:
  assumes "is_digit c"
  shows "c \<noteq> CHR ''-''" "c \<noteq> CHR ''+''" "c \<noteq> CHR ''.''" "c \<noteq> CHR ''I''"
    "c \<noteq> CHR ''x''" "c \<noteq> CHR ''X''" "c \<noteq> CHR ''o''" "c \<noteq> CHR ''O''" "c \<noteq> CHR ''b''" "c \<noteq> CHR ''B''"
  using assms by (auto simp: is_digit_def)

lemma trim_digits:
  assumes "list_all is_digit ds"
  shows "trim ds = ds"
proof (cases "ds = []")
  case True
  then show ?thesis
    by (simp add: trim_def)
next
  case False
  then have "is_digit (hd ds)" "is_digit (last ds)"
    using assms by (simp_all add: list_all_iff)
  then have "\<not> is_ws (hd ds)" "\<not> is_ws (hd (rev ds))"
    by (simp_all add: digit_not_ws hd_rev)
  then have "dropWhile is_ws ds = ds" "dropWhile is_ws (rev ds) = rev ds"
    by (simp_all add: dropWhile_eq_self_iff)
  then show ?thesis
    by (simp add: trim_def)
qed

lemma trim_start_digits:
  assumes "list_all is_digit ds"
  shows "trim_start ds = ds"
proof -
  have "ds = [] \<or> \<not> is_ws (hd ds)"
    using assms by (cases ds) (simp_all add: digit_not_ws)
  then show ?thesis
    by (simp add: trim_start_def dropWhile_eq_self_iff)
qed

lemma strip_sign_digits:
  assumes "list_all is_digit ds"
  shows "strip_sign ds = (False, ds)"
  using assms by (cases ds) (simp_all add: strip_sign_def digit_not_special)

lemma non_decimal_literal_digits:
  assumes "list_all is_digit ds"
  shows "non_decimal_literal ds = None"
proof (cases ds)
  case Nil
  then show ?thesis
    by (simp add: non_decimal_literal_def)
next
  case (Cons z t)
  show ?thesis
  proof (cases t)
    case Nil
    with Cons show ?thesis
      by (simp add: non_decimal_literal_def)
  next
    case (Cons x r)
    then have "is_digit x"
      using assms \<open>ds = z # t\<close> by simp
    then show ?thesis
      using Cons \<open>ds = z # t\<close> by (simp add: non_decimal_literal_def digit_not_special)
  qed
qed

lemma decimal_literal_digits:
  assumes "list_all is_digit ds" "ds \<noteq> []"
  shows "decimal_literal ds = Some (digits_val ds, 0)"
proof -
  have dw: "dropWhile is_digit ds = []"
    using assms by (simp add: list_all_iff)
  show ?thesis
    using assms(2) by (simp add: decimal_literal_def dw)
qed

lemma StringToNumber_digits:
  assumes "list_all is_digit ds" "ds \<noteq> []"
  shows "StringToNumber ds = to_double (of_nat (digits_val ds))"
proof -
  have "is_digit (hd ds)"
    using assms by (cases ds) simp_all
  then have "ds \<noteq> ''Infinity''"
    using digit_not_special(4) [of "hd ds"] by auto
  then show ?thesis
    using assms
    by (simp add: StringToNumber_def trim_digits non_decimal_literal_digits strip_sign_digits
        decimal_literal_digits decimal_value_def)
qed

lemma parseInt_digits:
  assumes "list_all is_digit ds" "ds \<noteq> []"
  shows "parseInt ds = to_double (of_nat (digits_val ds))"
proof -
  have tw: "takeWhile is_digit ds = ds"
    using assms by (simp add: list_all_iff)
  show ?thesis
    using assms by (simp add: parseInt_def trim_start_digits strip_sign_digits tw)
qed

lemma Number_show_nat:
  assumes "n < 2 ^ 53"
  shows "Number (PStr (show_nat n)) = Num (of_nat n)"
proof -
  have "to_double (of_int (int n)) = Num (of_int (int n))"
    using assms by (intro to_double_of_int) (simp_all add: of_nat_less_numeral_power_cancel_iff)
  then show ?thesis
    by (simp add: StringToNumber_digits show_nat_digits show_nat_not_Nil digits_val_show_nat)
qed

lemma parseInt_show_nat: "parseInt (show_nat n) = to_double (of_nat n)"
  by (simp add: parseInt_digits show_nat_digits show_nat_not_Nil digits_val_show_nat)

section \<open>The range parser and its specification\<close>

lemma range_loop_upto:
  "range_loop (of_int a) (of_int b) codes = codes @ map (\<lambda>k. Num (of_int k)) [a..b]"
proof (induction a b arbitrary: codes rule: upto.induct)
  case (1 i j)
  show ?case
  proof (cases "i \<le> j")
    case True
    have "range_loop (of_int i) (of_int j) codes = range_loop (of_int (i + 1)) (of_int j) (codes @ [Num (of_int i)])"
      using True by (simp add: range_loop.simps [of "of_int i"])
    also have "\<dots> = (codes @ [Num (of_int i)]) @ map (\<lambda>k. Num (of_int k)) [i + 1..j]"
      using True by (rule 1)
    also have "\<dots> = codes @ map (\<lambda>k. Num (of_int k)) [i..j]"
      using True by (simp add: upto_rec1)
    finally show ?thesis .
  next
    case False
    then show ?thesis
      by (simp add: range_loop.simps [of "of_int i"])
  qed
qed

lemma isValidStatusCode_Number: "isValidStatusCode (PNum (Number p)) = isValidStatusCode p"
  by (simp add: isValidStatusCode_def)

lemma integer_range_loop:
  assumes "Number_isInteger start" "Number_isInteger stop"
  shows "(case start of
            Num a \<Rightarrow> (case stop of Num b \<Rightarrow> range_loop a b codes | _ \<Rightarrow> codes)
          | _ \<Rightarrow> codes)
    = codes @ inclusive_sequence start stop"
proof -
  obtain a b where ab: "start = Num (of_int a)" "stop = Num (of_int b)"
    using assms by (cases start; cases stop) (auto dest: sym)
  show ?thesis
    by (simp add: ab range_loop_upto inclusive_sequence_def)
qed

lemma parse_part_append: "parse_part part codes = codes @ pushed_codes part"
proof (cases "CHR ''-'' \<in> set part")
  case True
  show ?thesis
  proof (cases "split_on CHR ''-'' part")
    case Nil
    with True show ?thesis
      by (simp add: parse_part_def pushed_codes_def)
  next
    case (Cons s t)
    show ?thesis
    proof (cases t)
      case Nil
      with Cons True show ?thesis
        by (simp add: parse_part_def pushed_codes_def)
    next
      case (Cons e rest)
      with \<open>split_on CHR ''-'' part = s # t\<close> True show ?thesis
        by (simp add: parse_part_def pushed_codes_def isValidStatusCode_Number integer_range_loop
            del: Number.simps)
    qed
  qed
next
  case False
  then show ?thesis
    by (simp add: parse_part_def pushed_codes_def isValidStatusCode_Number del: Number.simps)
qed

lemma parse_parts_append: "parse_parts parts codes = codes @ concat (map pushed_codes parts)"
  by (induction parts arbitrary: codes) (simp_all add: parse_part_append)

lemma parseStatusCodeRange_range_codes: "parseStatusCodeRange s = range_codes s"
  by (simp add: parseStatusCodeRange_def range_codes_def parse_parts_append)






section \<open>Evaluating the definitions\<close>

lemmas double_eval = to_double_def round_at_def assemble_def ulp_exp_def binade_def
  round_half_even_def bitlen_def compute_floorlog

lemmas literal_eval = StringToNumber_def trim_def is_ws_def non_decimal_literal_def strip_sign_def
  decimal_literal_def exponent_part_def is_digit_def digit_val_def digits_val_def decimal_value_def
  radix_digit_def parseInt_def trim_start_def

lemmas range_eval = range_codes_def pushed_codes_def inclusive_sequence_def isValidStatusCode_def


section \<open>Facts about the handlers\<close>

lemma valid_iff:
  "isValidStatusCode p = (\<exists>c::int. 100 \<le> c \<and> c \<le> 599 \<and> Number p = Num (of_int c))"
proof (cases "Number p")
  case (Num r)
  show ?thesis
  proof
    assume "isValidStatusCode p"
    then have r: "of_int \<lfloor>r\<rfloor> = r" "100 \<le> r" "r \<le> 599"
      by (simp_all add: isValidStatusCode_def Num)
    then have "100 \<le> \<lfloor>r\<rfloor>" "\<lfloor>r\<rfloor> \<le> 599"
      by linarith+
    with r(1) show "\<exists>c::int. 100 \<le> c \<and> c \<le> 599 \<and> Number p = Num (of_int c)"
      by (auto simp: Num)
  next
    assume "\<exists>c::int. 100 \<le> c \<and> c \<le> 599 \<and> Number p = Num (of_int c)"
    then show "isValidStatusCode p"
      by (auto simp: isValidStatusCode_def)
  qed
qed (simp_all add: isValidStatusCode_def)

lemma reserved_A_subset: "p \<in> set reserved_A \<Longrightarrow> p \<in> set reserved_B"
  by (auto simp: reserved_A_def reserved_B_def)

lemma reserved_invalid:
  assumes "p \<in> set reserved_B"
  shows "\<not> isValidStatusCode (PStr p)"
proof -
  have "p = ''random'' \<or> p = ''echo'' \<or> p = ''health'' \<or> p = ''docs'' \<or> p = ''openapi.json''
      \<or> p = ''openapi.yaml'' \<or> p = []"
    using assms by (simp add: reserved_B_def)
  then show ?thesis
    by (elim disjE) (simp_all add: isValidStatusCode_def literal_eval)
qed

lemma status_of_send_custom: "status_of (send_custom E c v) = Some c"
  by (simp add: send_custom_def)

lemma status_of_negotiated_reply: "status_of (negotiated_reply E req c) = Some c"
  by (simp add: negotiated_reply_def)

lemma status_of_envelope: "status_of (envelope E r c d) = Some c"
  by (simp add: envelope_def)

lemma Number_toString_nat:
  assumes "n < 10 ^ 21"
  shows "Number_toString E (Num (of_nat n)) = show_nat n"
proof -
  have "real n < 10 ^ 21"
    using assms by (simp add: of_nat_less_numeral_power_cancel_iff)
  then show ?thesis
    by (simp add: Number_toString_def)
qed


lemma isValidStatusCode_coerced:
  "isValidStatusCode (PNum (StringToNumber s)) = isValidStatusCode (PStr s)"
  by (simp add: isValidStatusCode_def)

lemma code_route_A_invalid:
  assumes "param req \<notin> set reserved_A" "\<not> isValidStatusCode (PStr (param req))"
  shows "code_route_A E req = ([], Reply (Num 400) (Send ''Invalid HTTP status code''))"
  using assms by (simp add: code_route_A_def isValidStatusCode_coerced)

lemma code_route_B_invalid:
  assumes "param req \<notin> set reserved_B" "\<not> isValidStatusCode (PStr (param req))"
  shows "code_route_B E req = ([], Reply (Num 400) (Send ''Invalid HTTP status code''))"
  using assms by (simp add: code_route_B_def isValidStatusCode_coerced)

lemma code_route_A_valid:
  assumes "isValidStatusCode (PStr (param req))"
  shows "code_route_A E req =
    (optional_delay (query_sleep req) @ body_events req,
     case custom_body E req of
       Some customBody \<Rightarrow> send_custom E (Number (PStr (param req))) customBody
     | None \<Rightarrow> negotiated_reply E req (Number (PStr (param req))))"
proof -
  have "param req \<notin> set reserved_A"
    using assms reserved_invalid reserved_A_subset by blast
  then show ?thesis
    using assms by (simp add: code_route_A_def isValidStatusCode_Number del: Number.simps)
qed

lemma code_route_B_valid:
  assumes "isValidStatusCode (PStr (param req))"
  shows "code_route_B E req =
    (optional_delay (query_sleep req) @ body_events req,
     case custom_body E req of
       Some customBody \<Rightarrow> send_custom E (Number (PStr (param req))) customBody
     | None \<Rightarrow>
         envelope E (param req) (Number (PStr (param req)))
           (getStatusDescription (Number (PStr (param req)))))"
proof -
  have "param req \<notin> set reserved_B"
    using assms reserved_invalid by blast
  then show ?thesis
    using assms by (simp add: code_route_B_def isValidStatusCode_Number del: Number.simps)
qed

lemma code_route_valid_status:
  assumes "isValidStatusCode (PStr (param req))"
  shows "status_of (snd (code_route_A E req)) = Some (StringToNumber (param req))"
    and "status_of (snd (code_route_B E req)) = Some (StringToNumber (param req))"
  using assms
  by (simp_all add: code_route_A_valid code_route_B_valid status_of_send_custom
      status_of_negotiated_reply status_of_envelope split: option.split)

lemma code_route_valid_not_error:
  assumes "isValidStatusCode (PStr (param req))"
  shows "snd (code_route_A E req) \<noteq> Reply c (Send m)"
    and "snd (code_route_B E req) \<noteq> Reply c (Send m)"
  using assms
  by (simp_all add: code_route_A_valid code_route_B_valid send_custom_def negotiated_reply_def
      envelope_def split: option.split)

lemma show_nat_valid:
  assumes "100 \<le> c" "c \<le> 599"
  shows "StringToNumber (show_nat c) = Num (of_nat c)" "isValidStatusCode (PStr (show_nat c))"
proof -
  have "c < 2 ^ 53"
    using assms by simp
  then have "Number (PStr (show_nat c)) = Num (of_nat c)"
    by (rule Number_show_nat)
  then show n: "StringToNumber (show_nat c) = Num (of_nat c)"
    by simp
  show "isValidStatusCode (PStr (show_nat c))"
    using assms by (simp add: isValidStatusCode_def n)
qed

lemma redirect_code_iff:
  "(isValidStatusCode (PNum n) \<and> \<not> js_lt n (Num 300) \<and> \<not> js_lt (Num 308) n)
    = (\<exists>c::int. 300 \<le> c \<and> c \<le> 308 \<and> n = Num (of_int c))"
proof (cases n)
  case (Num r)
  show ?thesis
  proof
    assume "isValidStatusCode (PNum n) \<and> \<not> js_lt n (Num 300) \<and> \<not> js_lt (Num 308) n"
    then have r: "of_int \<lfloor>r\<rfloor> = r" "300 \<le> r" "r \<le> 308"
      by (simp_all add: isValidStatusCode_def Num)
    then have "300 \<le> \<lfloor>r\<rfloor>" "\<lfloor>r\<rfloor> \<le> 308"
      by linarith+
    with r(1) show "\<exists>c::int. 300 \<le> c \<and> c \<le> 308 \<and> n = Num (of_int c)"
      by (auto simp: Num)
  next
    assume "\<exists>c::int. 300 \<le> c \<and> c \<le> 308 \<and> n = Num (of_int c)"
    then show "isValidStatusCode (PNum n) \<and> \<not> js_lt n (Num 300) \<and> \<not> js_lt (Num 308) n"
      by (auto simp: isValidStatusCode_def)
  qed
qed (simp_all add: isValidStatusCode_def)

lemma redirect_route_invalid:
  assumes "\<not> (\<exists>c::int. 300 \<le> c \<and> c \<le> 308 \<and> StringToNumber (param req) = Num (of_int c))"
  shows "redirect_route req = Reply (Num 400) (Send ''Invalid redirect status code (must be 300-308)'')"
  using assms redirect_code_iff [of "StringToNumber (param req)"]
  by (auto simp: redirect_route_def)

lemma redirect_route_valid:
  assumes "\<exists>c::int. 300 \<le> c \<and> c \<le> 308 \<and> StringToNumber (param req) = Num (of_int c)"
  shows \<open>redirect_route req =
    (case query_to req of
       None \<Rightarrow> Reply (Num 400) (Send ''Missing "to" query parameter for redirect target'')
     | Some to \<Rightarrow>
         if to = [] then Reply (Num 400) (Send ''Missing "to" query parameter for redirect target'')
         else Redirect (StringToNumber (param req)) to)\<close>
proof -
  have "isValidStatusCode (PNum (StringToNumber (param req))) \<and>
      \<not> js_lt (StringToNumber (param req)) (Num 300) \<and> \<not> js_lt (Num 308) (StringToNumber (param req))"
    using assms by (simp only: redirect_code_iff)
  then show ?thesis
    by (simp add: redirect_route_def split: option.split)
qed

lemma random_route_A_nonempty:
  assumes "parseStatusCodeRange (param req) \<noteq> []"
  shows "random_route_A E req =
    (Picked # optional_delay (query_sleep req) @ body_events req,
     case pick E (parseStatusCodeRange (param req)) of
       None \<Rightarrow> Fault
     | Some statusCode \<Rightarrow>
         (case custom_body E req of
            Some customBody \<Rightarrow> send_custom E statusCode customBody
          | None \<Rightarrow> negotiated_reply E req statusCode))"
  using assms by (simp add: random_route_A_def)

lemma random_route_B_nonempty:
  assumes "parseStatusCodeRange (param req) \<noteq> []"
  shows "random_route_B E req =
    (Picked # optional_delay (query_sleep req) @ body_events req,
     case pick E (parseStatusCodeRange (param req)) of
       None \<Rightarrow> Fault
     | Some statusCode \<Rightarrow>
         (case custom_body E req of
            Some customBody \<Rightarrow> send_custom E statusCode customBody
          | None \<Rightarrow> envelope E (param req) statusCode (getStatusDescription statusCode)))"
  using assms by (simp add: random_route_B_def)



lemma optional_delay_digits:
  "optional_delay (Some s) =
    (if takeWhile is_digit (snd (strip_sign (trim_start s))) \<noteq> [] \<and>
        \<not> fst (strip_sign (trim_start s)) \<and>
        0 < digits_val (takeWhile is_digit (snd (strip_sign (trim_start s))))
     then [Slept (to_double (of_nat (digits_val (takeWhile is_digit (snd (strip_sign (trim_start s)))))))]
     else [])"
proof (cases "s = []")
  case True
  then show ?thesis
    by (simp add: optional_delay_def trim_start_def strip_sign_def)
next
  case False
  obtain neg u where su: "strip_sign (trim_start s) = (neg, u)"
    by (cases "strip_sign (trim_start s)")
  define d where "d = digits_val (takeWhile is_digit u)"
  show ?thesis
  proof (cases "takeWhile is_digit u = []")
    case True
    then have "parseInt s = NaN"
      by (simp add: parseInt_def su)
    then show ?thesis
      using True False by (simp add: optional_delay_def su)
  next
    case digits: False
    show ?thesis
    proof (cases neg)
      case True
      then have "parseInt s = to_double (- of_nat d)"
        using digits by (simp add: parseInt_def su d_def)
      moreover have "\<not> js_lt (Num 0) (to_double (- of_nat d))"
        by (rule to_double_nonpos) simp
      ultimately show ?thesis
        using True False by (simp add: optional_delay_def su)
    next
      case pos: False
      then have p: "parseInt s = to_double (of_nat d)"
        using digits by (simp add: parseInt_def su d_def)
      show ?thesis
      proof (cases "d = 0")
        case True
        then have "parseInt s = Num 0"
          using p by (simp add: to_double_def)
        then show ?thesis
          using True False by (simp add: optional_delay_def su d_def)
      next
        case nz: False
        then have "1 \<le> real d"
          by simp
        then have "js_lt (Num 0) (to_double (of_nat d))"
          by (rule to_double_pos)
        then show ?thesis
          using nz False pos digits p to_double_not_NaN [of "of_nat d"]
          by (simp add: optional_delay_def su d_def)
      qed
    qed
  qed
qed

lemma optional_delay_show_nat:
  assumes "0 < n"
  shows "optional_delay (Some (show_nat n)) = [Slept (to_double (of_nat n))]"
proof -
  have ss: "strip_sign (trim_start (show_nat n)) = (False, show_nat n)"
    by (simp add: trim_start_digits strip_sign_digits show_nat_digits)
  have tw: "takeWhile is_digit (show_nat n) = show_nat n"
    using show_nat_digits [of n] by (simp add: list_all_iff)
  show ?thesis
    using assms by (simp add: optional_delay_digits ss tw digits_val_show_nat show_nat_not_Nil)
qed

lemma body_events_sleep [simp]: "body_events (req\<lparr>query_sleep := sl\<rparr>) = body_events req"
  by (simp add: body_events_def)

lemma custom_body_sleep [simp]: "custom_body E (req\<lparr>query_sleep := sl\<rparr>) = custom_body E req"
  by (simp add: custom_body_def split: option.split)

lemma negotiated_reply_sleep [simp]:
  "negotiated_reply E (req\<lparr>query_sleep := sl\<rparr>) c = negotiated_reply E req c"
  by (simp add: negotiated_reply_def)

lemma trim_digits_space:
  assumes "list_all is_digit ds" "ds \<noteq> []"
  shows "trim (ds @ '' '') = ds"
proof -
  have "is_digit (hd ds)" "is_digit (last ds)"
    using assms by (simp_all add: list_all_iff)
  then have h: "\<not> is_ws (hd (ds @ '' ''))" "\<not> is_ws (hd (rev ds))"
    using assms(2) by (simp_all add: digit_not_ws hd_rev)
  have 1: "dropWhile is_ws (ds @ '' '') = ds @ '' ''"
    using h(1) by (simp add: dropWhile_eq_self_iff)
  have 2: "dropWhile is_ws (rev ds) = rev ds"
    using h(2) by (simp add: dropWhile_eq_self_iff)
  show ?thesis
    by (simp add: trim_def 1 2 is_ws_def)
qed

lemma trim_digits_prefix:
  assumes "list_all is_digit ds" "ds \<noteq> []"
  shows "\<exists>t. trim (ds @ r) = ds @ t"
proof -
  have "is_digit (hd ds)" "is_digit (last ds)"
    using assms by (simp_all add: list_all_iff)
  then have h: "\<not> is_ws (hd (ds @ r))" "\<not> is_ws (hd (rev ds))"
    using assms(2) by (simp_all add: digit_not_ws hd_rev)
  have 1: "dropWhile is_ws (ds @ r) = ds @ r"
    using h(1) assms(2) by (simp add: dropWhile_eq_self_iff)
  have 2: "dropWhile is_ws (rev ds) = rev ds"
    using h(2) by (simp add: dropWhile_eq_self_iff)
  have "dropWhile is_ws (rev r @ rev ds)
      = (if \<forall>x \<in> set (rev r). is_ws x then rev ds else dropWhile is_ws (rev r) @ rev ds)"
    by (simp add: dropWhile_append 2)
  then have "trim (ds @ r) = ds @ (if \<forall>x \<in> set (rev r). is_ws x then [] else rev (dropWhile is_ws (rev r)))"
    by (simp add: trim_def 1)
  then show ?thesis
    by blast
qed

lemma getMDNLink_nat:
  assumes "c < 10 ^ 21"
  shows "getMDNLink E (Num (of_nat c)) = ''https://developer.mozilla.org/en-US/docs/Web/HTTP/Status/'' @ show_nat c"
  using assms by (simp add: getMDNLink_def Number_toString_nat)

lemma negotiated_reply_text:
  assumes "c < 10 ^ 21" "\<not> str_includes (or_empty (accept_header req)) ''application/json''"
  shows "negotiated_reply E req (Num (of_nat c))
    = Reply (Num (of_nat c)) (Text (trim (show_nat c @ '' '' @ or_empty (res_statusMessage E))))"
  using assms by (simp add: negotiated_reply_def Number_toString_nat)

lemma negotiated_reply_json:
  assumes "str_includes (or_empty (accept_header req)) ''application/json''"
  shows "negotiated_reply E req c = Reply c (Json (JObj
     [(''code'', JNum c),
      (''description'', JStr (or_empty (res_statusMessage E))),
      (''details'', JStr (getStatusDescription c)),
      (''mdn'', JStr (getMDNLink E c))]))"
  using assms by (simp add: negotiated_reply_def)

lemma code_route_default:
  assumes "isValidStatusCode (PStr (param req))" "custom_body E req = None"
  shows "snd (code_route_A E req) = negotiated_reply E req (StringToNumber (param req))"
    and "snd (code_route_B E req) = envelope E (param req) (StringToNumber (param req))
          (getStatusDescription (StringToNumber (param req)))"
  using assms by (simp_all add: code_route_A_valid code_route_B_valid)

lemma random_route_default:
  assumes "parseStatusCodeRange (param req) \<noteq> []" "pick E (parseStatusCodeRange (param req)) = Some c"
    "custom_body E req = None"
  shows "snd (random_route_A E req) = negotiated_reply E req c"
    and "snd (random_route_B E req) = envelope E (param req) c (getStatusDescription c)"
  using assms by (simp_all add: random_route_A_nonempty random_route_B_nonempty)

lemma test_request_plain:
  "custom_body test_env (get_request p) = None"
  "\<not> str_includes (or_empty (accept_header (get_request p))) ''application/json''"
  by (simp_all add: custom_body_def get_request_def or_empty_def)

lemma test_200:
  "StringToNumber ''200'' = Num 200" "parseStatusCodeRange ''200'' = [Num 200]"
  "pick test_env [Num 200] = Some (Num 200)" "show_nat 200 = ''200''"
proof -
  show "StringToNumber ''200'' = Num 200"
    by (simp add: literal_eval double_eval)
  have "range_codes ''200'' = [Num 200]"
    by (simp add: range_eval literal_eval double_eval)
  then show "parseStatusCodeRange ''200'' = [Num 200]"
    by (simp add: parseStatusCodeRange_range_codes)
  show "pick test_env [Num 200] = Some (Num 200)"
    by (simp add: pick_def test_env_def double_eval)
  show "show_nat 200 = ''200''"
    by (simp add: show_nat.simps digit_char_def)
qed

lemma test_env_durations:
  "duration_in_ms test_env = Num 250" "duration_in_seconds test_env = Num (1 / 4)"
proof -
  show m: "duration_in_ms test_env = Num 250"
    by (simp add: duration_in_ms_def test_env_def double_eval)
  show "duration_in_seconds test_env = Num (1 / 4)"
    by (simp add: duration_in_seconds_def m double_eval)
qed

lemma test_200_description: "getStatusDescription (Num 200) = ''OK: The request has succeeded.''"
  by (simp add: getStatusDescription_def statusDescriptions_def)

lemma test_200_link:
  "getMDNLink test_env (Num 200) = ''https://developer.mozilla.org/en-US/docs/Web/HTTP/Status/200''"
  using getMDNLink_nat [of 200 test_env] by (simp add: test_200)

lemma test_request_json:
  "custom_body test_env ((get_request p)\<lparr>accept_header := Some ''application/json''\<rparr>) = None"
  "str_includes (or_empty (accept_header ((get_request p)\<lparr>accept_header := Some ''application/json''\<rparr>)))
     ''application/json''"
  by (simp_all add: custom_body_def get_request_def or_empty_def)

lemma test_200_routes:
  "isValidStatusCode (PStr (param (get_request ''200'')))"
  "StringToNumber (param (get_request ''200'')) = Num 200"
  "parseStatusCodeRange (param (get_request ''200'')) \<noteq> []"
  "pick test_env (parseStatusCodeRange (param (get_request ''200''))) = Some (Num 200)"
  "isValidStatusCode (PStr (param ((get_request ''200'')\<lparr>accept_header := a\<rparr>)))"
  "StringToNumber (param ((get_request ''200'')\<lparr>accept_header := a\<rparr>)) = Num 200"
  "parseStatusCodeRange (param ((get_request ''200'')\<lparr>accept_header := a\<rparr>)) \<noteq> []"
  "pick test_env (parseStatusCodeRange (param ((get_request ''200'')\<lparr>accept_header := a\<rparr>))) = Some (Num 200)"
  by (simp_all add: get_request_def isValidStatusCode_def test_200)

lemma code_route_body_param:
  assumes "isValidStatusCode (PStr (param req))" "query_body req = Some b"
  shows "snd (code_route_A E req)
      = send_custom E (StringToNumber (param req)) (nullish_or (JSON_parse E b) (JStr b))"
    and "snd (code_route_B E req)
      = send_custom E (StringToNumber (param req)) (nullish_or (JSON_parse E b) (JStr b))"
proof -
  have "tryParseJSON E b = JSON_parse E b"
    by (simp add: tryParseJSON_def split: option.split)
  then have "custom_body E req = Some (nullish_or (JSON_parse E b) (JStr b))"
    using assms(2) by (simp add: custom_body_def)
  then show "snd (code_route_A E req)
      = send_custom E (StringToNumber (param req)) (nullish_or (JSON_parse E b) (JStr b))"
    and "snd (code_route_B E req)
      = send_custom E (StringToNumber (param req)) (nullish_or (JSON_parse E b) (JStr b))"
    using assms(1) by (simp_all add: code_route_A_valid code_route_B_valid)
qed

section \<open>The claims\<close>

text \<open>
  C1, as the code has it. For every integer \<open>c\<close> from 100 to 599, a request to \<open>/c\<close>
  (the decimal digits of \<open>c\<close>) gets a response whose status is \<open>c\<close>, in both copies of
  the server. A path value that is not a reserved segment and whose \<open>Number\<close> coercion is
  not an integer from 100 to 599 gets status 400 with the text \<open>Invalid HTTP status code\<close>.
  A reserved segment (\<open>random\<close>, \<open>echo\<close>, \<open>health\<close>, \<open>docs\<close>, the empty one, and in
  the second copy \<open>openapi.json\<close> and \<open>openapi.yaml\<close>) gets no answer from this handler:
  the request goes to the next route.
\<close>

theorem code_route_status_or_400:
  "(\<forall>c. 100 \<le> c \<and> c \<le> 599 \<and> param req = show_nat c \<longrightarrow>
      status_of (snd (code_route_A E req)) = Some (Num (of_nat c)) \<and>
      status_of (snd (code_route_B E req)) = Some (Num (of_nat c))) \<and>
   (param req \<notin> set reserved_A \<and> \<not> isValidStatusCode (PStr (param req)) \<longrightarrow>
      code_route_A E req = ([], Reply (Num 400) (Send ''Invalid HTTP status code''))) \<and>
   (param req \<notin> set reserved_B \<and> \<not> isValidStatusCode (PStr (param req)) \<longrightarrow>
      code_route_B E req = ([], Reply (Num 400) (Send ''Invalid HTTP status code''))) \<and>
   (param req \<in> set reserved_A \<longrightarrow> code_route_A E req = ([], Next)) \<and>
   (param req \<in> set reserved_B \<longrightarrow> code_route_B E req = ([], Next))"
proof (intro conjI allI impI)
  fix c :: nat
  assume c: "100 \<le> c \<and> c \<le> 599 \<and> param req = show_nat c"
  then have "isValidStatusCode (PStr (param req))" "StringToNumber (param req) = Num (of_nat c)"
    by (simp_all add: show_nat_valid)
  then show "status_of (snd (code_route_A E req)) = Some (Num (of_nat c))"
    and "status_of (snd (code_route_B E req)) = Some (Num (of_nat c))"
    by (simp_all add: code_route_valid_status)
next
  assume "param req \<notin> set reserved_A \<and> \<not> isValidStatusCode (PStr (param req))"
  then show "code_route_A E req = ([], Reply (Num 400) (Send ''Invalid HTTP status code''))"
    by (simp add: code_route_A_invalid)
next
  assume "param req \<notin> set reserved_B \<and> \<not> isValidStatusCode (PStr (param req))"
  then show "code_route_B E req = ([], Reply (Num 400) (Send ''Invalid HTTP status code''))"
    by (simp add: code_route_B_invalid)
next
  assume "param req \<in> set reserved_A"
  then show "code_route_A E req = ([], Next)"
    by (simp add: code_route_A_def)
next
  assume "param req \<in> set reserved_B"
  then show "code_route_B E req = ([], Next)"
    by (simp add: code_route_B_def)
qed

text \<open>The handlers run on \<open>/404\<close>, \<open>/abc\<close> and \<open>/docs\<close>.\<close>

theorem code_route_status_or_400_witness:
  "status_of (snd (code_route_A test_env (get_request ''404''))) = Some (Num 404) \<and>
   status_of (snd (code_route_B test_env (get_request ''404''))) = Some (Num 404) \<and>
   code_route_A test_env (get_request ''abc'') = ([], Reply (Num 400) (Send ''Invalid HTTP status code'')) \<and>
   code_route_B test_env (get_request ''abc'') = ([], Reply (Num 400) (Send ''Invalid HTTP status code'')) \<and>
   code_route_A test_env (get_request ''docs'') = ([], Next) \<and>
   code_route_B test_env (get_request ''docs'') = ([], Next)"
proof -
  have "(100::nat) \<le> 404 \<and> (404::nat) \<le> 599 \<and> param (get_request ''404'') = show_nat 404"
    by (simp add: get_request_def show_nat.simps digit_char_def)
  moreover have "param (get_request ''abc'') \<notin> set reserved_A \<and> \<not> isValidStatusCode (PStr (param (get_request ''abc'')))"
    "param (get_request ''abc'') \<notin> set reserved_B \<and> \<not> isValidStatusCode (PStr (param (get_request ''abc'')))"
    by (simp_all add: get_request_def reserved_A_def reserved_B_def isValidStatusCode_def literal_eval)
  moreover have "param (get_request ''docs'') \<in> set reserved_A" "param (get_request ''docs'') \<in> set reserved_B"
    by (simp_all add: get_request_def reserved_A_def reserved_B_def)
  ultimately show ?thesis
    using code_route_status_or_400 [of "get_request ''404''" test_env, THEN conjunct1, rule_format, of 404]
      code_route_status_or_400 [of "get_request ''abc''" test_env, THEN conjunct2, THEN conjunct1, rule_format]
      code_route_status_or_400 [of "get_request ''abc''" test_env, THEN conjunct2, THEN conjunct2,
        THEN conjunct1, rule_format]
      code_route_status_or_400 [of "get_request ''docs''" test_env, THEN conjunct2, THEN conjunct2,
        THEN conjunct2, THEN conjunct1, rule_format]
      code_route_status_or_400 [of "get_request ''docs''" test_env, THEN conjunct2, THEN conjunct2,
        THEN conjunct2, THEN conjunct2, rule_format]
    by (simp only: of_nat_numeral simp_thms)
qed

text \<open>
  The path value \<open>health\<close> is no status code, and the answer is not 400: the handler calls
  \<open>next()\<close>. So "status 400 for every path value outside the range" does not hold.
\<close>

theorem reserved_segment_counterexample:
  "\<not> isValidStatusCode (PStr ''health'') \<and>
   code_route_A test_env (get_request ''health'') = ([], Next) \<and>
   code_route_B test_env (get_request ''health'') = ([], Next) \<and>
   status_of (snd (code_route_A test_env (get_request ''health''))) \<noteq> Some (Num 400) \<and>
   status_of (snd (code_route_B test_env (get_request ''health''))) \<noteq> Some (Num 400)"
  by (simp add: code_route_A_def code_route_B_def get_request_def reserved_A_def reserved_B_def
      isValidStatusCode_def literal_eval)




text \<open>
  C3, as the code has it. When no custom body is supplied, the two endpoints of one copy
  answer alike. In the first copy both \<open>/:code\<close> and \<open>/random/:range\<close> answer with plain
  text that begins with the digits of the code, unless the \<open>Accept\<close> header includes
  \<open>application/json\<close>, and then with a JSON object of four fields: the code, a description,
  the definition and the documentation link. In the second copy both endpoints always
  answer with the full envelope of ten fields, whatever the \<open>Accept\<close> header is. What
  follows the code in the text, and the description in the objects, is the status message
  that the response object holds when the handler reads it (nothing when it holds none);
  the statement does not say that this is the reason phrase of the code.
\<close>

theorem default_reply_by_copy:
  "(\<forall>c::nat. 100 \<le> c \<and> c \<le> 599 \<and> StringToNumber (param req) = Num (of_nat c) \<and>
        custom_body E req = None \<longrightarrow>
      (\<not> str_includes (or_empty (accept_header req)) ''application/json'' \<longrightarrow>
         snd (code_route_A E req)
           = Reply (Num (of_nat c)) (Text (trim (show_nat c @ '' '' @ or_empty (res_statusMessage E))))) \<and>
      (str_includes (or_empty (accept_header req)) ''application/json'' \<longrightarrow>
         snd (code_route_A E req) = Reply (Num (of_nat c)) (Json (JObj
           [(''code'', JNum (Num (of_nat c))),
            (''description'', JStr (or_empty (res_statusMessage E))),
            (''details'', JStr (getStatusDescription (Num (of_nat c)))),
            (''mdn'', JStr (''https://developer.mozilla.org/en-US/docs/Web/HTTP/Status/'' @ show_nat c))]))) \<and>
      snd (code_route_B E req) = Reply (Num (of_nat c)) (Json (JObj
        [(''code'', JNum (Num (of_nat c))),
         (''requestedCode'', JStr (param req)),
         (''description'', JStr (or_empty (res_statusMessage E))),
         (''definition'', JStr (getStatusDescription (Num (of_nat c)))),
         (''details'', JStr (getStatusDescription (Num (of_nat c)))),
         (''mdn'', JStr (''https://developer.mozilla.org/en-US/docs/Web/HTTP/Status/'' @ show_nat c)),
         (''startTime'', JStr (Date_toISOString E (clock_start E))),
         (''replyTime'', JStr (Date_toISOString E (clock_reply E))),
         (''duration_in_ms'', JNum (duration_in_ms E)),
         (''duration_in_seconds'', JNum (duration_in_seconds E))]))) \<and>
   (\<forall>c::nat. c \<le> 599 \<and> parseStatusCodeRange (param req) \<noteq> [] \<and>
        pick E (parseStatusCodeRange (param req)) = Some (Num (of_nat c)) \<and>
        custom_body E req = None \<longrightarrow>
      (\<not> str_includes (or_empty (accept_header req)) ''application/json'' \<longrightarrow>
         snd (random_route_A E req)
           = Reply (Num (of_nat c)) (Text (trim (show_nat c @ '' '' @ or_empty (res_statusMessage E))))) \<and>
      (str_includes (or_empty (accept_header req)) ''application/json'' \<longrightarrow>
         snd (random_route_A E req) = Reply (Num (of_nat c)) (Json (JObj
           [(''code'', JNum (Num (of_nat c))),
            (''description'', JStr (or_empty (res_statusMessage E))),
            (''details'', JStr (getStatusDescription (Num (of_nat c)))),
            (''mdn'', JStr (''https://developer.mozilla.org/en-US/docs/Web/HTTP/Status/'' @ show_nat c))]))) \<and>
      snd (random_route_B E req) = Reply (Num (of_nat c)) (Json (JObj
        [(''code'', JNum (Num (of_nat c))),
         (''requestedCode'', JStr (param req)),
         (''description'', JStr (or_empty (res_statusMessage E))),
         (''definition'', JStr (getStatusDescription (Num (of_nat c)))),
         (''details'', JStr (getStatusDescription (Num (of_nat c)))),
         (''mdn'', JStr (''https://developer.mozilla.org/en-US/docs/Web/HTTP/Status/'' @ show_nat c)),
         (''startTime'', JStr (Date_toISOString E (clock_start E))),
         (''replyTime'', JStr (Date_toISOString E (clock_reply E))),
         (''duration_in_ms'', JNum (duration_in_ms E)),
         (''duration_in_seconds'', JNum (duration_in_seconds E))]))) \<and>
   (\<forall>c::nat. \<exists>t. trim (show_nat c @ '' '' @ or_empty (res_statusMessage E)) = show_nat c @ t)"
proof (intro conjI allI impI)
  fix c :: nat
  assume a: "100 \<le> c \<and> c \<le> 599 \<and> StringToNumber (param req) = Num (of_nat c) \<and> custom_body E req = None"
  then have v: "isValidStatusCode (PStr (param req))"
    by (simp add: isValidStatusCode_def)
  have c: "c < 10 ^ 21"
    using a by simp
  note d = code_route_default [OF v, of E]
  show "snd (code_route_A E req)
      = Reply (Num (of_nat c)) (Text (trim (show_nat c @ '' '' @ or_empty (res_statusMessage E))))"
    if "\<not> str_includes (or_empty (accept_header req)) ''application/json''"
    using a that c by (simp add: d negotiated_reply_text)
  show "snd (code_route_A E req) = Reply (Num (of_nat c)) (Json (JObj
           [(''code'', JNum (Num (of_nat c))),
            (''description'', JStr (or_empty (res_statusMessage E))),
            (''details'', JStr (getStatusDescription (Num (of_nat c)))),
            (''mdn'', JStr (''https://developer.mozilla.org/en-US/docs/Web/HTTP/Status/'' @ show_nat c))]))"
    if "str_includes (or_empty (accept_header req)) ''application/json''"
    using a that c by (simp add: d negotiated_reply_json getMDNLink_nat)
  show "snd (code_route_B E req) = Reply (Num (of_nat c)) (Json (JObj
        [(''code'', JNum (Num (of_nat c))),
         (''requestedCode'', JStr (param req)),
         (''description'', JStr (or_empty (res_statusMessage E))),
         (''definition'', JStr (getStatusDescription (Num (of_nat c)))),
         (''details'', JStr (getStatusDescription (Num (of_nat c)))),
         (''mdn'', JStr (''https://developer.mozilla.org/en-US/docs/Web/HTTP/Status/'' @ show_nat c)),
         (''startTime'', JStr (Date_toISOString E (clock_start E))),
         (''replyTime'', JStr (Date_toISOString E (clock_reply E))),
         (''duration_in_ms'', JNum (duration_in_ms E)),
         (''duration_in_seconds'', JNum (duration_in_seconds E))]))"
    using a c by (simp add: d envelope_def getMDNLink_nat)
next
  fix c :: nat
  assume a: "c \<le> 599 \<and> parseStatusCodeRange (param req) \<noteq> [] \<and>
    pick E (parseStatusCodeRange (param req)) = Some (Num (of_nat c)) \<and> custom_body E req = None"
  have c: "c < 10 ^ 21"
    using a by simp
  have d: "snd (random_route_A E req) = negotiated_reply E req (Num (of_nat c))"
    "snd (random_route_B E req) = envelope E (param req) (Num (of_nat c)) (getStatusDescription (Num (of_nat c)))"
    using a by (simp_all add: random_route_default)
  show "snd (random_route_A E req)
      = Reply (Num (of_nat c)) (Text (trim (show_nat c @ '' '' @ or_empty (res_statusMessage E))))"
    if "\<not> str_includes (or_empty (accept_header req)) ''application/json''"
    using that c by (simp add: d negotiated_reply_text)
  show "snd (random_route_A E req) = Reply (Num (of_nat c)) (Json (JObj
           [(''code'', JNum (Num (of_nat c))),
            (''description'', JStr (or_empty (res_statusMessage E))),
            (''details'', JStr (getStatusDescription (Num (of_nat c)))),
            (''mdn'', JStr (''https://developer.mozilla.org/en-US/docs/Web/HTTP/Status/'' @ show_nat c))]))"
    if "str_includes (or_empty (accept_header req)) ''application/json''"
    using that c by (simp add: d negotiated_reply_json getMDNLink_nat)
  show "snd (random_route_B E req) = Reply (Num (of_nat c)) (Json (JObj
        [(''code'', JNum (Num (of_nat c))),
         (''requestedCode'', JStr (param req)),
         (''description'', JStr (or_empty (res_statusMessage E))),
         (''definition'', JStr (getStatusDescription (Num (of_nat c)))),
         (''details'', JStr (getStatusDescription (Num (of_nat c)))),
         (''mdn'', JStr (''https://developer.mozilla.org/en-US/docs/Web/HTTP/Status/'' @ show_nat c)),
         (''startTime'', JStr (Date_toISOString E (clock_start E))),
         (''replyTime'', JStr (Date_toISOString E (clock_reply E))),
         (''duration_in_ms'', JNum (duration_in_ms E)),
         (''duration_in_seconds'', JNum (duration_in_seconds E))]))"
    using c by (simp add: d envelope_def getMDNLink_nat)
next
  fix c :: nat
  show "\<exists>t. trim (show_nat c @ '' '' @ or_empty (res_statusMessage E)) = show_nat c @ t"
    using show_nat_digits show_nat_not_Nil by (rule trim_digits_prefix)
qed

text \<open>
  The four handlers run on \<open>200\<close> with no body: without an \<open>Accept\<close> header, and the first
  copy with \<open>Accept: application/json\<close>.
\<close>

theorem default_reply_by_copy_witness:
  "snd (code_route_A test_env (get_request ''200'')) = Reply (Num 200) (Text ''200'') \<and>
   snd (random_route_A test_env (get_request ''200'')) = Reply (Num 200) (Text ''200'') \<and>
   snd (code_route_B test_env (get_request ''200'')) = Reply (Num 200) (Json (JObj
     [(''code'', JNum (Num 200)),
      (''requestedCode'', JStr ''200''),
      (''description'', JStr []),
      (''definition'', JStr ''OK: The request has succeeded.''),
      (''details'', JStr ''OK: The request has succeeded.''),
      (''mdn'', JStr ''https://developer.mozilla.org/en-US/docs/Web/HTTP/Status/200''),
      (''startTime'', JStr ''1970-01-01T00:00:01.000Z''),
      (''replyTime'', JStr ''1970-01-01T00:00:01.250Z''),
      (''duration_in_ms'', JNum (Num 250)),
      (''duration_in_seconds'', JNum (Num (1 / 4)))])) \<and>
   snd (random_route_B test_env (get_request ''200'')) = snd (code_route_B test_env (get_request ''200'')) \<and>
   snd (code_route_A test_env ((get_request ''200'')\<lparr>accept_header := Some ''application/json''\<rparr>))
     = Reply (Num 200) (Json (JObj
         [(''code'', JNum (Num 200)),
          (''description'', JStr []),
          (''details'', JStr ''OK: The request has succeeded.''),
          (''mdn'', JStr ''https://developer.mozilla.org/en-US/docs/Web/HTTP/Status/200'')])) \<and>
   snd (random_route_A test_env ((get_request ''200'')\<lparr>accept_header := Some ''application/json''\<rparr>))
     = snd (code_route_A test_env ((get_request ''200'')\<lparr>accept_header := Some ''application/json''\<rparr>))"
proof -
  let ?j = "(get_request ''200'')\<lparr>accept_header := Some ''application/json''\<rparr>"
  have a: "100 \<le> (200::nat) \<and> (200::nat) \<le> 599 \<and> StringToNumber (param (get_request ''200'')) = Num (of_nat 200) \<and>
      custom_body test_env (get_request ''200'') = None"
    by (simp add: test_request_plain test_200_routes)
  have b: "(200::nat) \<le> 599 \<and> parseStatusCodeRange (param (get_request ''200'')) \<noteq> [] \<and>
      pick test_env (parseStatusCodeRange (param (get_request ''200''))) = Some (Num (of_nat 200)) \<and>
      custom_body test_env (get_request ''200'') = None"
    by (simp add: test_request_plain test_200_routes)
  have aj: "100 \<le> (200::nat) \<and> (200::nat) \<le> 599 \<and> StringToNumber (param ?j) = Num (of_nat 200) \<and>
      custom_body test_env ?j = None"
    by (simp add: test_request_json test_200_routes or_empty_def)
  have bj: "(200::nat) \<le> 599 \<and> parseStatusCodeRange (param ?j) \<noteq> [] \<and>
      pick test_env (parseStatusCodeRange (param ?j)) = Some (Num (of_nat 200)) \<and>
      custom_body test_env ?j = None"
    by (simp add: test_request_json test_200_routes or_empty_def)
  have t: "trim (''200'' @ '' '' @ []) = ''200''"
    by (simp add: trim_def is_ws_def)
  have e: "param (get_request ''200'') = ''200''" "param ?j = ''200''" "or_empty (res_statusMessage test_env) = []"
    "Date_toISOString test_env (clock_start test_env) = ''1970-01-01T00:00:01.000Z''"
    "Date_toISOString test_env (clock_reply test_env) = ''1970-01-01T00:00:01.250Z''"
    "Num (of_nat 200) = Num 200"
    "''https://developer.mozilla.org/en-US/docs/Web/HTTP/Status/'' @ ''200''
       = ''https://developer.mozilla.org/en-US/docs/Web/HTTP/Status/200''"
    by (simp_all add: get_request_def test_env_def or_empty_def)
  note A = default_reply_by_copy [where req = "get_request ''200''" and E = test_env, THEN conjunct1, rule_format, OF a]
  note B = default_reply_by_copy [where req = "get_request ''200''" and E = test_env, THEN conjunct2, THEN conjunct1,
      rule_format, OF b]
  note AJ = default_reply_by_copy [where req = ?j and E = test_env, THEN conjunct1, rule_format, OF aj]
  note BJ = default_reply_by_copy [where req = ?j and E = test_env, THEN conjunct2, THEN conjunct1,
      rule_format, OF bj]
  have 1: "snd (code_route_A test_env (get_request ''200'')) = Reply (Num 200) (Text ''200'')"
    using A [THEN conjunct1, rule_format, OF test_request_plain(2)]
    by (simp only: test_200 e t)
  have 2: "snd (random_route_A test_env (get_request ''200'')) = Reply (Num 200) (Text ''200'')"
    using B [THEN conjunct1, rule_format, OF test_request_plain(2)]
    by (simp only: test_200 e t)
  have 3: "snd (code_route_B test_env (get_request ''200'')) = Reply (Num 200) (Json (JObj
     [(''code'', JNum (Num 200)),
      (''requestedCode'', JStr ''200''),
      (''description'', JStr []),
      (''definition'', JStr ''OK: The request has succeeded.''),
      (''details'', JStr ''OK: The request has succeeded.''),
      (''mdn'', JStr ''https://developer.mozilla.org/en-US/docs/Web/HTTP/Status/200''),
      (''startTime'', JStr ''1970-01-01T00:00:01.000Z''),
      (''replyTime'', JStr ''1970-01-01T00:00:01.250Z''),
      (''duration_in_ms'', JNum (Num 250)),
      (''duration_in_seconds'', JNum (Num (1 / 4)))]))"
    using A [THEN conjunct2, THEN conjunct2]
    by (simp only: test_200 e test_env_durations test_200_description)
  have 4: "snd (random_route_B test_env (get_request ''200'')) = snd (code_route_B test_env (get_request ''200''))"
    using B [THEN conjunct2, THEN conjunct2]
    by (simp only: 3 test_200 e test_env_durations test_200_description)
  have 5: "snd (code_route_A test_env ?j) = Reply (Num 200) (Json (JObj
         [(''code'', JNum (Num 200)),
          (''description'', JStr []),
          (''details'', JStr ''OK: The request has succeeded.''),
          (''mdn'', JStr ''https://developer.mozilla.org/en-US/docs/Web/HTTP/Status/200'')]))"
    using AJ [THEN conjunct2, THEN conjunct1, rule_format, OF test_request_json(2)]
    by (simp only: test_200 e test_200_description)
  have 6: "snd (random_route_A test_env ?j) = snd (code_route_A test_env ?j)"
    using BJ [THEN conjunct2, THEN conjunct1, rule_format, OF test_request_json(2)]
    by (simp only: 5 test_200 e test_200_description)
  from 1 2 3 4 5 6 show ?thesis
    by (intro conjI)
qed

text \<open>
  With no custom body and no \<open>Accept\<close> header, the \<open>/:code\<close> handler of the second copy
  answers with the JSON envelope, not with plain text, and the \<open>/random/:range\<close> handler of
  the first copy answers with plain text, not with the envelope. So no copy answers with
  plain text on \<open>/:code\<close> and always with the envelope on \<open>/random/:range\<close>. The plain
  text of the first copy for \<open>/200\<close> is \<open>200\<close>, without a reason phrase, when the response
  object holds no status message, as it does until the headers are written.
\<close>

theorem no_asymmetry_counterexample:
  "custom_body test_env (get_request ''200'') = None \<and> accept_header (get_request ''200'') = None \<and>
   res_statusMessage test_env = None \<and>
   snd (code_route_B test_env (get_request ''200'')) = Reply (Num 200) (Json (JObj
     [(''code'', JNum (Num 200)),
      (''requestedCode'', JStr ''200''),
      (''description'', JStr []),
      (''definition'', JStr ''OK: The request has succeeded.''),
      (''details'', JStr ''OK: The request has succeeded.''),
      (''mdn'', JStr ''https://developer.mozilla.org/en-US/docs/Web/HTTP/Status/200''),
      (''startTime'', JStr ''1970-01-01T00:00:01.000Z''),
      (''replyTime'', JStr ''1970-01-01T00:00:01.250Z''),
      (''duration_in_ms'', JNum (Num 250)),
      (''duration_in_seconds'', JNum (Num (1 / 4)))])) \<and>
   snd (random_route_A test_env (get_request ''200'')) = Reply (Num 200) (Text ''200'') \<and>
   snd (code_route_A test_env (get_request ''200'')) = Reply (Num 200) (Text ''200'')"
proof -
  have v: "isValidStatusCode (PStr (param (get_request ''200'')))"
    by (simp add: get_request_def isValidStatusCode_def test_200)
  have p: "parseStatusCodeRange (param (get_request ''200'')) \<noteq> []"
    "pick test_env (parseStatusCodeRange (param (get_request ''200''))) = Some (Num (of_nat 200))"
    by (simp_all add: get_request_def test_200)
  have "snd (code_route_B test_env (get_request ''200''))
      = envelope test_env ''200'' (Num 200) (getStatusDescription (Num 200))"
    using code_route_default(2) [OF v test_request_plain(1)] by (simp add: get_request_def test_200)
  then have b: "snd (code_route_B test_env (get_request ''200'')) = Reply (Num 200) (Json (JObj
     [(''code'', JNum (Num 200)),
      (''requestedCode'', JStr ''200''),
      (''description'', JStr []),
      (''definition'', JStr ''OK: The request has succeeded.''),
      (''details'', JStr ''OK: The request has succeeded.''),
      (''mdn'', JStr ''https://developer.mozilla.org/en-US/docs/Web/HTTP/Status/200''),
      (''startTime'', JStr ''1970-01-01T00:00:01.000Z''),
      (''replyTime'', JStr ''1970-01-01T00:00:01.250Z''),
      (''duration_in_ms'', JNum (Num 250)),
      (''duration_in_seconds'', JNum (Num (1 / 4)))]))"
    by (simp add: envelope_def test_env_durations test_200_description test_200_link)
      (simp add: test_env_def or_empty_def)
  have n: "negotiated_reply test_env (get_request ''200'') (Num (of_nat 200)) = Reply (Num 200) (Text ''200'')"
  proof -
    have "negotiated_reply test_env (get_request ''200'') (Num (of_nat 200))
        = Reply (Num (of_nat 200)) (Text (trim (show_nat 200 @ '' '' @ or_empty (res_statusMessage test_env))))"
      by (rule negotiated_reply_text) (simp_all add: test_request_plain)
    also have "\<dots> = Reply (Num 200) (Text ''200'')"
      by (simp add: test_200 test_env_def or_empty_def trim_def is_ws_def)
    finally show ?thesis .
  qed
  have "snd (random_route_A test_env (get_request ''200'')) = negotiated_reply test_env (get_request ''200'') (Num (of_nat 200))"
    using p test_request_plain(1) by (rule random_route_default(1))
  then have a: "snd (random_route_A test_env (get_request ''200'')) = Reply (Num 200) (Text ''200'')"
    by (simp only: n)
  have "snd (code_route_A test_env (get_request ''200''))
      = negotiated_reply test_env (get_request ''200'') (StringToNumber (param (get_request ''200'')))"
    using v test_request_plain(1) by (rule code_route_default(1))
  then have c: "snd (code_route_A test_env (get_request ''200'')) = Reply (Num 200) (Text ''200'')"
    using n by (simp add: test_200_routes)
  have h: "accept_header (get_request ''200'') = None" "res_statusMessage test_env = None"
    by (simp_all add: get_request_def test_env_def)
  from test_request_plain(1) [of "''200''"] h b a c show ?thesis
    by (intro conjI)
qed

text \<open>
  C4, as the code has it. In the second copy, every envelope sent when no custom body is
  present holds, in this order: the selected code, the requested code or range string, a
  description, the definition twice (as \<open>definition\<close> and as \<open>details\<close>; empty when the
  code is not in the table), the documentation link (a fixed prefix followed by the digits
  of the code), the ISO strings of the start and of the reply instants, the elapsed
  milliseconds (the difference of the two clock readings) and the elapsed seconds (that
  difference divided by 1000, as a double). In the first copy the object, sent only when
  the \<open>Accept\<close> header includes \<open>application/json\<close>, holds the code, a description, the
  definition and the link only. The description is the status message that the response
  object holds when the handler reads it, the empty string when it holds none; the
  statement does not say that this is the reason phrase of the code.
\<close>

theorem envelope_fields:
  "(isValidStatusCode (PStr (param req)) \<and> custom_body E req = None \<longrightarrow>
      snd (code_route_B E req) = Reply (StringToNumber (param req)) (Json (JObj
        [(''code'', JNum (StringToNumber (param req))),
         (''requestedCode'', JStr (param req)),
         (''description'', JStr (or_empty (res_statusMessage E))),
         (''definition'', JStr (getStatusDescription (StringToNumber (param req)))),
         (''details'', JStr (getStatusDescription (StringToNumber (param req)))),
         (''mdn'', JStr (getMDNLink E (StringToNumber (param req)))),
         (''startTime'', JStr (Date_toISOString E (clock_start E))),
         (''replyTime'', JStr (Date_toISOString E (clock_reply E))),
         (''duration_in_ms'', JNum (duration_in_ms E)),
         (''duration_in_seconds'', JNum (duration_in_seconds E))]))) \<and>
   (\<forall>c. parseStatusCodeRange (param req) \<noteq> [] \<and> pick E (parseStatusCodeRange (param req)) = Some c \<and>
        custom_body E req = None \<longrightarrow>
      snd (random_route_B E req) = Reply c (Json (JObj
        [(''code'', JNum c),
         (''requestedCode'', JStr (param req)),
         (''description'', JStr (or_empty (res_statusMessage E))),
         (''definition'', JStr (getStatusDescription c)),
         (''details'', JStr (getStatusDescription c)),
         (''mdn'', JStr (getMDNLink E c)),
         (''startTime'', JStr (Date_toISOString E (clock_start E))),
         (''replyTime'', JStr (Date_toISOString E (clock_reply E))),
         (''duration_in_ms'', JNum (duration_in_ms E)),
         (''duration_in_seconds'', JNum (duration_in_seconds E))]))) \<and>
   (isValidStatusCode (PStr (param req)) \<and> custom_body E req = None \<and>
    str_includes (or_empty (accept_header req)) ''application/json'' \<longrightarrow>
      snd (code_route_A E req) = Reply (StringToNumber (param req)) (Json (JObj
        [(''code'', JNum (StringToNumber (param req))),
         (''description'', JStr (or_empty (res_statusMessage E))),
         (''details'', JStr (getStatusDescription (StringToNumber (param req)))),
         (''mdn'', JStr (getMDNLink E (StringToNumber (param req))))]))) \<and>
   (\<forall>c. parseStatusCodeRange (param req) \<noteq> [] \<and> pick E (parseStatusCodeRange (param req)) = Some c \<and>
        custom_body E req = None \<and> str_includes (or_empty (accept_header req)) ''application/json'' \<longrightarrow>
      snd (random_route_A E req) = Reply c (Json (JObj
        [(''code'', JNum c),
         (''description'', JStr (or_empty (res_statusMessage E))),
         (''details'', JStr (getStatusDescription c)),
         (''mdn'', JStr (getMDNLink E c))]))) \<and>
   (\<forall>c. map_of statusDescriptions c = None \<longrightarrow> getStatusDescription c = []) \<and>
   (\<forall>c::nat. c < 10 ^ 21 \<longrightarrow>
      getMDNLink E (Num (of_nat c)) = ''https://developer.mozilla.org/en-US/docs/Web/HTTP/Status/'' @ show_nat c) \<and>
   (0 \<le> clock_reply E - clock_start E \<and> clock_reply E - clock_start E < 2 ^ 53 \<longrightarrow>
      duration_in_ms E = Num (of_int (clock_reply E - clock_start E)) \<and>
      duration_in_seconds E = to_double (of_int (clock_reply E - clock_start E) / 1000))"
proof (intro conjI allI impI)
  assume "isValidStatusCode (PStr (param req)) \<and> custom_body E req = None"
  then show "snd (code_route_B E req) = Reply (StringToNumber (param req)) (Json (JObj
        [(''code'', JNum (StringToNumber (param req))),
         (''requestedCode'', JStr (param req)),
         (''description'', JStr (or_empty (res_statusMessage E))),
         (''definition'', JStr (getStatusDescription (StringToNumber (param req)))),
         (''details'', JStr (getStatusDescription (StringToNumber (param req)))),
         (''mdn'', JStr (getMDNLink E (StringToNumber (param req)))),
         (''startTime'', JStr (Date_toISOString E (clock_start E))),
         (''replyTime'', JStr (Date_toISOString E (clock_reply E))),
         (''duration_in_ms'', JNum (duration_in_ms E)),
         (''duration_in_seconds'', JNum (duration_in_seconds E))]))"
    by (simp add: code_route_default envelope_def)
next
  fix c
  assume "parseStatusCodeRange (param req) \<noteq> [] \<and> pick E (parseStatusCodeRange (param req)) = Some c \<and>
        custom_body E req = None"
  then show "snd (random_route_B E req) = Reply c (Json (JObj
        [(''code'', JNum c),
         (''requestedCode'', JStr (param req)),
         (''description'', JStr (or_empty (res_statusMessage E))),
         (''definition'', JStr (getStatusDescription c)),
         (''details'', JStr (getStatusDescription c)),
         (''mdn'', JStr (getMDNLink E c)),
         (''startTime'', JStr (Date_toISOString E (clock_start E))),
         (''replyTime'', JStr (Date_toISOString E (clock_reply E))),
         (''duration_in_ms'', JNum (duration_in_ms E)),
         (''duration_in_seconds'', JNum (duration_in_seconds E))]))"
    by (simp add: random_route_default envelope_def)
next
  assume "isValidStatusCode (PStr (param req)) \<and> custom_body E req = None \<and>
    str_includes (or_empty (accept_header req)) ''application/json''"
  then show "snd (code_route_A E req) = Reply (StringToNumber (param req)) (Json (JObj
        [(''code'', JNum (StringToNumber (param req))),
         (''description'', JStr (or_empty (res_statusMessage E))),
         (''details'', JStr (getStatusDescription (StringToNumber (param req)))),
         (''mdn'', JStr (getMDNLink E (StringToNumber (param req))))]))"
    by (simp add: code_route_default negotiated_reply_json)
next
  fix c
  assume "parseStatusCodeRange (param req) \<noteq> [] \<and> pick E (parseStatusCodeRange (param req)) = Some c \<and>
        custom_body E req = None \<and> str_includes (or_empty (accept_header req)) ''application/json''"
  then show "snd (random_route_A E req) = Reply c (Json (JObj
        [(''code'', JNum c),
         (''description'', JStr (or_empty (res_statusMessage E))),
         (''details'', JStr (getStatusDescription c)),
         (''mdn'', JStr (getMDNLink E c))]))"
    by (simp add: random_route_default negotiated_reply_json)
next
  fix c
  assume "map_of statusDescriptions c = None"
  then show "getStatusDescription c = []"
    by (simp add: getStatusDescription_def)
next
  fix c :: nat
  assume "c < 10 ^ 21"
  then show "getMDNLink E (Num (of_nat c)) = ''https://developer.mozilla.org/en-US/docs/Web/HTTP/Status/'' @ show_nat c"
    by (rule getMDNLink_nat)
next
  assume "0 \<le> clock_reply E - clock_start E \<and> clock_reply E - clock_start E < 2 ^ 53"
  then have "to_double (of_int (clock_reply E - clock_start E)) = Num (of_int (clock_reply E - clock_start E))"
    by (intro to_double_of_int) simp_all
  then show "duration_in_ms E = Num (of_int (clock_reply E - clock_start E))"
    and "duration_in_seconds E = to_double (of_int (clock_reply E - clock_start E) / 1000)"
    by (simp_all add: duration_in_ms_def duration_in_seconds_def)
qed

text \<open>
  The envelope of the second copy for \<open>200\<close>, 250 milliseconds after the start, the object of
  the first copy, the definition of the unknown code 418, the link and the durations.
\<close>

theorem envelope_fields_witness:
  "snd (code_route_B test_env (get_request ''200'')) = Reply (Num 200) (Json (JObj
     [(''code'', JNum (Num 200)),
      (''requestedCode'', JStr ''200''),
      (''description'', JStr []),
      (''definition'', JStr ''OK: The request has succeeded.''),
      (''details'', JStr ''OK: The request has succeeded.''),
      (''mdn'', JStr ''https://developer.mozilla.org/en-US/docs/Web/HTTP/Status/200''),
      (''startTime'', JStr ''1970-01-01T00:00:01.000Z''),
      (''replyTime'', JStr ''1970-01-01T00:00:01.250Z''),
      (''duration_in_ms'', JNum (Num 250)),
      (''duration_in_seconds'', JNum (Num (1 / 4)))])) \<and>
   snd (random_route_B test_env (get_request ''200'')) = snd (code_route_B test_env (get_request ''200'')) \<and>
   snd (random_route_A test_env ((get_request ''200'')\<lparr>accept_header := Some ''application/json''\<rparr>))
     = Reply (Num 200) (Json (JObj
         [(''code'', JNum (Num 200)),
          (''description'', JStr []),
          (''details'', JStr ''OK: The request has succeeded.''),
          (''mdn'', JStr ''https://developer.mozilla.org/en-US/docs/Web/HTTP/Status/200'')])) \<and>
   snd (code_route_A test_env ((get_request ''200'')\<lparr>accept_header := Some ''application/json''\<rparr>))
     = snd (random_route_A test_env ((get_request ''200'')\<lparr>accept_header := Some ''application/json''\<rparr>)) \<and>
   getStatusDescription (Num 418) = [] \<and>
   getMDNLink test_env (Num 200) = ''https://developer.mozilla.org/en-US/docs/Web/HTTP/Status/200'' \<and>
   duration_in_ms test_env = Num 250 \<and> duration_in_seconds test_env = Num (1 / 4)"
proof -
  let ?j = "(get_request ''200'')\<lparr>accept_header := Some ''application/json''\<rparr>"
  note T = envelope_fields [where E = test_env]
  have d: "0 \<le> clock_reply test_env - clock_start test_env \<and> clock_reply test_env - clock_start test_env < 2 ^ 53"
    by (simp add: test_env_def)
  have dur: "duration_in_ms test_env = Num 250" "duration_in_seconds test_env = Num (1 / 4)"
    using T [where req = "get_request ''200''", THEN conjunct2, THEN conjunct2, THEN conjunct2, THEN conjunct2,
        THEN conjunct2, THEN conjunct2, rule_format, OF d]
    by (simp_all add: test_env_def double_eval)
  have "(200::nat) < 10 ^ 21"
    by simp
  then have "getMDNLink test_env (Num (of_nat 200))
      = ''https://developer.mozilla.org/en-US/docs/Web/HTTP/Status/'' @ show_nat 200"
    by (rule T [where req = "get_request ''200''", THEN conjunct2, THEN conjunct2, THEN conjunct2, THEN conjunct2,
        THEN conjunct2, THEN conjunct1, rule_format])
  then have link: "getMDNLink test_env (Num 200) = ''https://developer.mozilla.org/en-US/docs/Web/HTTP/Status/200''"
    by (simp add: test_200)
  have "map_of statusDescriptions (Num 418) = None"
    by (simp add: statusDescriptions_def)
  then have unknown: "getStatusDescription (Num 418) = []"
    by (rule T [where req = "get_request ''200''", THEN conjunct2, THEN conjunct2, THEN conjunct2, THEN conjunct2,
        THEN conjunct1, rule_format])
  have a: "isValidStatusCode (PStr (param (get_request ''200''))) \<and> custom_body test_env (get_request ''200'') = None"
    by (simp add: test_request_plain test_200_routes)
  have b: "parseStatusCodeRange (param (get_request ''200'')) \<noteq> [] \<and>
      pick test_env (parseStatusCodeRange (param (get_request ''200''))) = Some (Num 200) \<and>
      custom_body test_env (get_request ''200'') = None"
    by (simp add: test_request_plain test_200_routes)
  have aj: "isValidStatusCode (PStr (param ?j)) \<and> custom_body test_env ?j = None \<and>
      str_includes (or_empty (accept_header ?j)) ''application/json''"
    by (simp add: test_request_json test_200_routes or_empty_def)
  have bj: "parseStatusCodeRange (param ?j) \<noteq> [] \<and> pick test_env (parseStatusCodeRange (param ?j)) = Some (Num 200) \<and>
      custom_body test_env ?j = None \<and> str_includes (or_empty (accept_header ?j)) ''application/json''"
    by (simp add: test_request_json test_200_routes or_empty_def)
  have e: "param (get_request ''200'') = ''200''" "or_empty (res_statusMessage test_env) = []"
    "Date_toISOString test_env (clock_start test_env) = ''1970-01-01T00:00:01.000Z''"
    "Date_toISOString test_env (clock_reply test_env) = ''1970-01-01T00:00:01.250Z''"
    by (simp_all add: get_request_def test_env_def or_empty_def)
  have 1: "snd (code_route_B test_env (get_request ''200'')) = Reply (Num 200) (Json (JObj
     [(''code'', JNum (Num 200)),
      (''requestedCode'', JStr ''200''),
      (''description'', JStr []),
      (''definition'', JStr ''OK: The request has succeeded.''),
      (''details'', JStr ''OK: The request has succeeded.''),
      (''mdn'', JStr ''https://developer.mozilla.org/en-US/docs/Web/HTTP/Status/200''),
      (''startTime'', JStr ''1970-01-01T00:00:01.000Z''),
      (''replyTime'', JStr ''1970-01-01T00:00:01.250Z''),
      (''duration_in_ms'', JNum (Num 250)),
      (''duration_in_seconds'', JNum (Num (1 / 4)))]))"
    using T [where req = "get_request ''200''", THEN conjunct1, rule_format, OF a]
    by (simp only: test_200_routes test_200 e dur link test_200_description)
  have 2: "snd (random_route_B test_env (get_request ''200'')) = snd (code_route_B test_env (get_request ''200''))"
    using T [where req = "get_request ''200''", THEN conjunct2, THEN conjunct1, rule_format, OF b]
    by (simp only: 1 test_200_routes test_200 e dur link test_200_description)
  have 3: "snd (random_route_A test_env ?j) = Reply (Num 200) (Json (JObj
         [(''code'', JNum (Num 200)),
          (''description'', JStr []),
          (''details'', JStr ''OK: The request has succeeded.''),
          (''mdn'', JStr ''https://developer.mozilla.org/en-US/docs/Web/HTTP/Status/200'')]))"
    using T [where req = ?j, THEN conjunct2, THEN conjunct2, THEN conjunct2, THEN conjunct1, rule_format, OF bj]
    by (simp only: test_200 e link test_200_description)
  have 4: "snd (code_route_A test_env ?j) = snd (random_route_A test_env ?j)"
    using T [where req = ?j, THEN conjunct2, THEN conjunct2, THEN conjunct1, rule_format, OF aj]
    by (simp only: 3 test_200_routes test_200 e link test_200_description)
  from 1 2 3 4 unknown link dur show ?thesis
    by (intro conjI)
qed

text \<open>
  The first copy, asked for \<open>/200\<close> with \<open>Accept: application/json\<close> and no custom body,
  sends an object of four fields: it has no requested code, no timestamps and no duration.
  In both copies the description for \<open>/200\<close> is the empty string, not the reason phrase
  \<open>OK\<close>, when the response object holds no status message, as it does until the headers
  are written.
\<close>

theorem first_copy_envelope_counterexample:
  "custom_body test_env ((get_request ''200'')\<lparr>accept_header := Some ''application/json''\<rparr>) = None \<and>
   snd (code_route_A test_env ((get_request ''200'')\<lparr>accept_header := Some ''application/json''\<rparr>))
     = Reply (Num 200) (Json (JObj
         [(''code'', JNum (Num 200)),
          (''description'', JStr []),
          (''details'', JStr ''OK: The request has succeeded.''),
          (''mdn'', JStr ''https://developer.mozilla.org/en-US/docs/Web/HTTP/Status/200'')])) \<and>
   res_statusMessage test_env = None \<and>
   custom_body test_env (get_request ''200'') = None \<and>
   snd (code_route_B test_env (get_request ''200'')) = Reply (Num 200) (Json (JObj
     [(''code'', JNum (Num 200)),
      (''requestedCode'', JStr ''200''),
      (''description'', JStr []),
      (''definition'', JStr ''OK: The request has succeeded.''),
      (''details'', JStr ''OK: The request has succeeded.''),
      (''mdn'', JStr ''https://developer.mozilla.org/en-US/docs/Web/HTTP/Status/200''),
      (''startTime'', JStr ''1970-01-01T00:00:01.000Z''),
      (''replyTime'', JStr ''1970-01-01T00:00:01.250Z''),
      (''duration_in_ms'', JNum (Num 250)),
      (''duration_in_seconds'', JNum (Num (1 / 4)))]))"
proof -
  let ?r = "(get_request ''200'')\<lparr>accept_header := Some ''application/json''\<rparr>"
  have v: "isValidStatusCode (PStr (param ?r))"
    by (simp add: get_request_def isValidStatusCode_def test_200)
  have c: "custom_body test_env ?r = None"
    by (simp add: custom_body_def get_request_def)
  have i: "str_includes (or_empty (accept_header ?r)) ''application/json''"
    by (simp add: get_request_def or_empty_def)
  have "snd (code_route_A test_env ?r) = negotiated_reply test_env ?r (StringToNumber (param ?r))"
    using v c by (rule code_route_default(1))
  also have "\<dots> = Reply (StringToNumber (param ?r)) (Json (JObj
     [(''code'', JNum (StringToNumber (param ?r))),
      (''description'', JStr (or_empty (res_statusMessage test_env))),
      (''details'', JStr (getStatusDescription (StringToNumber (param ?r)))),
      (''mdn'', JStr (getMDNLink test_env (StringToNumber (param ?r))))]))"
    using i by (rule negotiated_reply_json)
  also have "\<dots> = Reply (Num 200) (Json (JObj
         [(''code'', JNum (Num 200)),
          (''description'', JStr []),
          (''details'', JStr ''OK: The request has succeeded.''),
          (''mdn'', JStr ''https://developer.mozilla.org/en-US/docs/Web/HTTP/Status/200'')]))"
    by (simp add: get_request_def test_200 test_200_description test_200_link)
      (simp add: test_env_def or_empty_def)
  finally have a: "snd (code_route_A test_env ?r) = Reply (Num 200) (Json (JObj
         [(''code'', JNum (Num 200)),
          (''description'', JStr []),
          (''details'', JStr ''OK: The request has succeeded.''),
          (''mdn'', JStr ''https://developer.mozilla.org/en-US/docs/Web/HTTP/Status/200'')]))" .
  have "snd (code_route_B test_env (get_request ''200''))
      = envelope test_env ''200'' (Num 200) (getStatusDescription (Num 200))"
    using code_route_default(2) [OF test_200_routes(1) test_request_plain(1)]
    by (simp add: get_request_def test_200)
  then have b: "snd (code_route_B test_env (get_request ''200'')) = Reply (Num 200) (Json (JObj
     [(''code'', JNum (Num 200)),
      (''requestedCode'', JStr ''200''),
      (''description'', JStr []),
      (''definition'', JStr ''OK: The request has succeeded.''),
      (''details'', JStr ''OK: The request has succeeded.''),
      (''mdn'', JStr ''https://developer.mozilla.org/en-US/docs/Web/HTTP/Status/200''),
      (''startTime'', JStr ''1970-01-01T00:00:01.000Z''),
      (''replyTime'', JStr ''1970-01-01T00:00:01.250Z''),
      (''duration_in_ms'', JNum (Num 250)),
      (''duration_in_seconds'', JNum (Num (1 / 4)))]))"
    by (simp add: envelope_def test_env_durations test_200_description test_200_link)
      (simp add: test_env_def or_empty_def)
  have m: "res_statusMessage test_env = None"
    by (simp add: test_env_def)
  from c a m test_request_plain(1) [of "''200''"] b show ?thesis
    by (intro conjI)
qed




text \<open>
  C6, as the code has it. The \<open>sleep\<close> parameter is read by \<open>parseInt(sleep, 10)\<close> as a
  count of milliseconds: leading white space and a sign are skipped, and the decimal digits
  that follow are the count, whatever comes after them. When there are such digits, no
  minus sign, and the count is positive, the handler awaits a timer armed with that count
  (the count as a double; exactly \<open>n\<close> for the digits of a positive \<open>n\<close> below \<open>2 ^ 53\<close>) before it
  resolves the body and composes the response. When the parameter is absent or empty, has
  no digits there, has a minus sign (negative) or counts zero, no delay is applied. The
  \<open>sleep\<close> parameter never changes the outcome, so no value of it raises an error.
\<close>

theorem sleep_parameter_delay:
  "optional_delay None = [] \<and> optional_delay (Some []) = [] \<and>
   (takeWhile is_digit (snd (strip_sign (trim_start s))) = [] \<longrightarrow> optional_delay (Some s) = []) \<and>
   (fst (strip_sign (trim_start s)) \<longrightarrow> optional_delay (Some s) = []) \<and>
   (digits_val (takeWhile is_digit (snd (strip_sign (trim_start s)))) = 0 \<longrightarrow> optional_delay (Some s) = []) \<and>
   (takeWhile is_digit (snd (strip_sign (trim_start s))) \<noteq> [] \<and> \<not> fst (strip_sign (trim_start s)) \<and>
    0 < digits_val (takeWhile is_digit (snd (strip_sign (trim_start s)))) \<longrightarrow>
      optional_delay (Some s) =
        [Slept (to_double (of_nat (digits_val (takeWhile is_digit (snd (strip_sign (trim_start s)))))))]) \<and>
   (\<forall>n. 0 < n \<and> n < 2 ^ 53 \<longrightarrow> optional_delay (Some (show_nat n)) = [Slept (Num (of_nat n))]) \<and>
   (isValidStatusCode (PStr (param req)) \<longrightarrow>
      fst (code_route_A E req) = optional_delay (query_sleep req) @ body_events req \<and>
      fst (code_route_B E req) = optional_delay (query_sleep req) @ body_events req \<and>
      snd (code_route_A E (req\<lparr>query_sleep := sl\<rparr>)) = snd (code_route_A E req) \<and>
      snd (code_route_B E (req\<lparr>query_sleep := sl\<rparr>)) = snd (code_route_B E req)) \<and>
   (parseStatusCodeRange (param req) \<noteq> [] \<longrightarrow>
      fst (random_route_A E req) = Picked # optional_delay (query_sleep req) @ body_events req \<and>
      fst (random_route_B E req) = Picked # optional_delay (query_sleep req) @ body_events req \<and>
      snd (random_route_A E (req\<lparr>query_sleep := sl\<rparr>)) = snd (random_route_A E req) \<and>
      snd (random_route_B E (req\<lparr>query_sleep := sl\<rparr>)) = snd (random_route_B E req))"
proof -
  have a: "optional_delay None = []" "optional_delay (Some []) = []"
    by (simp_all add: optional_delay_def)
  have b: "takeWhile is_digit (snd (strip_sign (trim_start s))) = [] \<longrightarrow> optional_delay (Some s) = []"
    "fst (strip_sign (trim_start s)) \<longrightarrow> optional_delay (Some s) = []"
    "digits_val (takeWhile is_digit (snd (strip_sign (trim_start s)))) = 0 \<longrightarrow> optional_delay (Some s) = []"
    "takeWhile is_digit (snd (strip_sign (trim_start s))) \<noteq> [] \<and> \<not> fst (strip_sign (trim_start s)) \<and>
     0 < digits_val (takeWhile is_digit (snd (strip_sign (trim_start s)))) \<longrightarrow>
      optional_delay (Some s) =
        [Slept (to_double (of_nat (digits_val (takeWhile is_digit (snd (strip_sign (trim_start s)))))))]"
    by (simp_all add: optional_delay_digits)
  have c: "\<forall>n. 0 < n \<and> n < 2 ^ 53 \<longrightarrow> optional_delay (Some (show_nat n)) = [Slept (Num (of_nat n))]"
  proof (intro allI impI)
    fix n :: nat
    assume n: "0 < n \<and> n < 2 ^ 53"
    then have "to_double (of_int (int n)) = Num (of_int (int n))"
      by (intro to_double_of_int) (simp_all add: of_nat_less_numeral_power_cancel_iff)
    then show "optional_delay (Some (show_nat n)) = [Slept (Num (of_nat n))]"
      using n by (simp add: optional_delay_show_nat)
  qed
  have d: "isValidStatusCode (PStr (param req)) \<longrightarrow>
      fst (code_route_A E req) = optional_delay (query_sleep req) @ body_events req \<and>
      fst (code_route_B E req) = optional_delay (query_sleep req) @ body_events req \<and>
      snd (code_route_A E (req\<lparr>query_sleep := sl\<rparr>)) = snd (code_route_A E req) \<and>
      snd (code_route_B E (req\<lparr>query_sleep := sl\<rparr>)) = snd (code_route_B E req)"
    by (simp add: code_route_A_valid code_route_B_valid split: option.split del: Number.simps)
  have e: "parseStatusCodeRange (param req) \<noteq> [] \<longrightarrow>
      fst (random_route_A E req) = Picked # optional_delay (query_sleep req) @ body_events req \<and>
      fst (random_route_B E req) = Picked # optional_delay (query_sleep req) @ body_events req \<and>
      snd (random_route_A E (req\<lparr>query_sleep := sl\<rparr>)) = snd (random_route_A E req) \<and>
      snd (random_route_B E (req\<lparr>query_sleep := sl\<rparr>)) = snd (random_route_B E req)"
    by (simp add: random_route_A_nonempty random_route_B_nonempty split: option.split)
  from a b c d e show ?thesis
    by (intro conjI)
qed

text \<open>
  Delays of \<open>100\<close> (on \<open>/200\<close> and on \<open>/random/200\<close>), \<open>abc\<close>, \<open>-5\<close>, \<open>0\<close>, and of
  \<open>12abc\<close>, which \<open>parseInt\<close> reads as 12.
\<close>

theorem sleep_parameter_delay_witness:
  "fst (code_route_B test_env ((get_request ''200'')\<lparr>query_sleep := Some ''100''\<rparr>)) = [Slept (Num 100)] \<and>
   optional_delay (Some ''abc'') = [] \<and> optional_delay (Some ''-5'') = [] \<and>
   optional_delay (Some ''0'') = [] \<and> optional_delay (Some ''12abc'') = [Slept (Num 12)] \<and>
   fst (random_route_A test_env ((get_request ''200'')\<lparr>query_sleep := Some ''100''\<rparr>))
     = [Picked, Slept (Num 100)]"
proof -
  have s: "strip_sign (trim_start ''abc'') = (False, ''abc'')" "strip_sign (trim_start ''-5'') = (True, ''5'')"
    "strip_sign (trim_start ''0'') = (False, ''0'')"
    by (simp_all add: literal_eval)
  have "takeWhile is_digit (snd (strip_sign (trim_start ''abc''))) = []"
    by (simp add: s literal_eval)
  then have 1: "optional_delay (Some ''abc'') = []"
    by (rule sleep_parameter_delay [THEN conjunct2, THEN conjunct2, THEN conjunct1, rule_format])
  have "fst (strip_sign (trim_start ''-5''))"
    by (simp add: s)
  then have 2: "optional_delay (Some ''-5'') = []"
    by (rule sleep_parameter_delay [THEN conjunct2, THEN conjunct2, THEN conjunct2, THEN conjunct1, rule_format])
  have "digits_val (takeWhile is_digit (snd (strip_sign (trim_start ''0'')))) = 0"
    by (simp add: s literal_eval)
  then have 3: "optional_delay (Some ''0'') = []"
    by (rule sleep_parameter_delay [THEN conjunct2, THEN conjunct2, THEN conjunct2, THEN conjunct2,
          THEN conjunct1, rule_format])
  have n: "show_nat 100 = ''100''"
    by (simp add: show_nat.simps digit_char_def)
  have "(0::nat) < 100 \<and> (100::nat) < 2 ^ 53"
    by simp
  then have 4: "optional_delay (Some (show_nat 100)) = [Slept (Num (of_nat 100))]"
    by (rule sleep_parameter_delay [THEN conjunct2, THEN conjunct2, THEN conjunct2, THEN conjunct2,
          THEN conjunct2, THEN conjunct2, THEN conjunct1, rule_format])
  have "StringToNumber ''200'' = Num 200"
    by (simp add: literal_eval double_eval)
  then have "isValidStatusCode (PStr (param ((get_request ''200'')\<lparr>query_sleep := Some ''100''\<rparr>)))"
    by (simp add: get_request_def isValidStatusCode_def)
  then have "fst (code_route_B test_env ((get_request ''200'')\<lparr>query_sleep := Some ''100''\<rparr>))
      = optional_delay (query_sleep ((get_request ''200'')\<lparr>query_sleep := Some ''100''\<rparr>))
        @ body_events ((get_request ''200'')\<lparr>query_sleep := Some ''100''\<rparr>)"
    by (rule sleep_parameter_delay [THEN conjunct2, THEN conjunct2, THEN conjunct2, THEN conjunct2,
          THEN conjunct2, THEN conjunct2, THEN conjunct2, THEN conjunct1, rule_format, THEN conjunct2,
          THEN conjunct1])
  then have 5: "fst (code_route_B test_env ((get_request ''200'')\<lparr>query_sleep := Some ''100''\<rparr>)) = [Slept (Num 100)]"
    using 4 n by (simp add: get_request_def body_events_def)
  have t: "strip_sign (trim_start ''12abc'') = (False, ''12abc'')"
    by (simp add: literal_eval)
  have "takeWhile is_digit (snd (strip_sign (trim_start ''12abc''))) \<noteq> [] \<and>
      \<not> fst (strip_sign (trim_start ''12abc'')) \<and>
      0 < digits_val (takeWhile is_digit (snd (strip_sign (trim_start ''12abc''))))"
    by (simp add: t literal_eval)
  then have "optional_delay (Some ''12abc'') =
      [Slept (to_double (of_nat (digits_val (takeWhile is_digit (snd (strip_sign (trim_start ''12abc'')))))))]"
    by (rule sleep_parameter_delay [THEN conjunct2, THEN conjunct2, THEN conjunct2, THEN conjunct2,
          THEN conjunct2, THEN conjunct1, rule_format])
  then have 6: "optional_delay (Some ''12abc'') = [Slept (Num 12)]"
    by (simp add: t literal_eval double_eval)
  have "parseStatusCodeRange (param ((get_request ''200'')\<lparr>query_sleep := Some ''100''\<rparr>)) \<noteq> []"
    by (simp add: get_request_def test_200)
  then have "fst (random_route_A test_env ((get_request ''200'')\<lparr>query_sleep := Some ''100''\<rparr>))
      = Picked # optional_delay (query_sleep ((get_request ''200'')\<lparr>query_sleep := Some ''100''\<rparr>))
        @ body_events ((get_request ''200'')\<lparr>query_sleep := Some ''100''\<rparr>)"
    by (rule sleep_parameter_delay [THEN conjunct2, THEN conjunct2, THEN conjunct2, THEN conjunct2,
          THEN conjunct2, THEN conjunct2, THEN conjunct2, THEN conjunct2, rule_format, THEN conjunct1])
  then have 7: "fst (random_route_A test_env ((get_request ''200'')\<lparr>query_sleep := Some ''100''\<rparr>))
      = [Picked, Slept (Num 100)]"
    using 4 n by (simp add: get_request_def body_events_def)
  from 1 2 3 5 6 7 show ?thesis
    by (intro conjI)
qed

text \<open>
  The value \<open>12abc\<close> is not a number, and the handler waits 12 milliseconds; the value
  \<open>2e2\<close> is the number 200, and the handler waits 2 milliseconds. So "no delay for every
  non-numeric value" and "a delay of that duration for every valid positive value" do not
  hold.
\<close>

theorem digits_prefix_counterexample:
  "StringToNumber ''12abc'' = NaN \<and> optional_delay (Some ''12abc'') = [Slept (Num 12)] \<and>
   StringToNumber ''2e2'' = Num 200 \<and> optional_delay (Some ''2e2'') = [Slept (Num 2)] \<and>
   fst (code_route_A test_env ((get_request ''200'')\<lparr>query_sleep := Some ''12abc''\<rparr>)) = [Slept (Num 12)] \<and>
   fst (code_route_B test_env ((get_request ''200'')\<lparr>query_sleep := Some ''12abc''\<rparr>)) = [Slept (Num 12)]"
proof -
  have p: "parseInt ''12abc'' = Num 12" "parseInt ''2e2'' = Num 2"
    by (simp_all add: literal_eval double_eval)
  then have d: "optional_delay (Some ''12abc'') = [Slept (Num 12)]" "optional_delay (Some ''2e2'') = [Slept (Num 2)]"
    by (simp_all add: optional_delay_def)
  have v: "isValidStatusCode (PStr (param ((get_request ''200'')\<lparr>query_sleep := Some ''12abc''\<rparr>)))"
    by (simp add: get_request_def isValidStatusCode_def test_200)
  have f: "fst (code_route_A test_env ((get_request ''200'')\<lparr>query_sleep := Some ''12abc''\<rparr>)) = [Slept (Num 12)]"
    "fst (code_route_B test_env ((get_request ''200'')\<lparr>query_sleep := Some ''12abc''\<rparr>)) = [Slept (Num 12)]"
    unfolding code_route_A_valid [OF v] code_route_B_valid [OF v]
    using d by (simp_all add: get_request_def body_events_def)
  have n: "StringToNumber ''12abc'' = NaN" "StringToNumber ''2e2'' = Num 200"
    by (simp_all add: literal_eval double_eval)
  from n d f show ?thesis
    by (intro conjI)
qed

text \<open>
  C7, as the code has it. The redirect endpoint answers with status 400 and a message
  exactly when the \<open>Number\<close> coercion of the path code is not an integer from 300 to 308
  (\<open>Invalid redirect status code (must be 300-308)\<close>), or the \<open>to\<close> parameter is absent or
  empty (\<open>Missing "to" query parameter for redirect target\<close>). Otherwise it redirects with
  that status code to that target, whatever the target looks like.
\<close>

theorem redirect_route_cases:
  \<open>((\<exists>m. redirect_route req = Reply (Num 400) (Send m)) \<longleftrightarrow>
      \<not> (\<exists>c::int. 300 \<le> c \<and> c \<le> 308 \<and> StringToNumber (param req) = Num (of_int c)) \<or>
      query_to req = None \<or> query_to req = Some []) \<and>
   (\<not> (\<exists>c::int. 300 \<le> c \<and> c \<le> 308 \<and> StringToNumber (param req) = Num (of_int c)) \<longrightarrow>
      redirect_route req = Reply (Num 400) (Send ''Invalid redirect status code (must be 300-308)'')) \<and>
   (\<forall>c::int. 300 \<le> c \<and> c \<le> 308 \<and> StringToNumber (param req) = Num (of_int c) \<and>
        (query_to req = None \<or> query_to req = Some []) \<longrightarrow>
      redirect_route req = Reply (Num 400) (Send ''Missing "to" query parameter for redirect target'')) \<and>
   (\<forall>c::int. \<forall>t. 300 \<le> c \<and> c \<le> 308 \<and> StringToNumber (param req) = Num (of_int c) \<and>
        query_to req = Some t \<and> t \<noteq> [] \<longrightarrow>
      redirect_route req = Redirect (Num (of_int c)) t)\<close>
proof (cases "\<exists>c::int. 300 \<le> c \<and> c \<le> 308 \<and> StringToNumber (param req) = Num (of_int c)")
  case False
  then have "redirect_route req = Reply (Num 400) (Send ''Invalid redirect status code (must be 300-308)'')"
    by (rule redirect_route_invalid)
  with False show ?thesis
    by blast
next
  case True
  note r = redirect_route_valid [OF True]
  show ?thesis
  proof (cases "query_to req")
    case None
    then have \<open>redirect_route req = Reply (Num 400) (Send ''Missing "to" query parameter for redirect target'')\<close>
      by (simp add: r)
    with None True show ?thesis
      by auto
  next
    case (Some t)
    show ?thesis
    proof (cases "t = []")
      case True
      then have \<open>redirect_route req = Reply (Num 400) (Send ''Missing "to" query parameter for redirect target'')\<close>
        using Some by (simp add: r)
      with Some True \<open>\<exists>c::int. 300 \<le> c \<and> c \<le> 308 \<and> StringToNumber (param req) = Num (of_int c)\<close>
      show ?thesis
        by auto
    next
      case False
      then have "redirect_route req = Redirect (StringToNumber (param req)) t"
        using Some by (simp add: r)
      with Some False \<open>\<exists>c::int. 300 \<le> c \<and> c \<le> 308 \<and> StringToNumber (param req) = Num (of_int c)\<close>
      show ?thesis
        by auto
    qed
  qed
qed

text \<open>Redirects for \<open>/redirect/301\<close> with a target, \<open>/redirect/200\<close>, and \<open>/redirect/301\<close> alone.\<close>

theorem redirect_route_cases_witness:
  \<open>redirect_route ((get_request ''301'')\<lparr>query_to := Some ''https://example.com''\<rparr>)
     = Redirect (Num 301) ''https://example.com'' \<and>
   redirect_route ((get_request ''200'')\<lparr>query_to := Some ''https://example.com''\<rparr>)
     = Reply (Num 400) (Send ''Invalid redirect status code (must be 300-308)'') \<and>
   redirect_route (get_request ''301'')
     = Reply (Num 400) (Send ''Missing "to" query parameter for redirect target'')\<close>
proof -
  have n: "StringToNumber ''301'' = Num (of_int 301)" "StringToNumber ''200'' = Num 200"
    by (simp_all add: literal_eval double_eval)
  have a: "(300::int) \<le> 301 \<and> (301::int) \<le> 308 \<and>
      StringToNumber (param ((get_request ''301'')\<lparr>query_to := Some ''https://example.com''\<rparr>)) = Num (of_int 301) \<and>
      query_to ((get_request ''301'')\<lparr>query_to := Some ''https://example.com''\<rparr>) = Some ''https://example.com'' \<and>
      ''https://example.com'' \<noteq> []"
    using n(1) by (simp add: get_request_def)
  have b: "\<not> (\<exists>c::int. 300 \<le> c \<and> c \<le> 308 \<and>
      StringToNumber (param ((get_request ''200'')\<lparr>query_to := Some ''https://example.com''\<rparr>)) = Num (of_int c))"
  proof
    assume "\<exists>c::int. 300 \<le> c \<and> c \<le> 308 \<and>
      StringToNumber (param ((get_request ''200'')\<lparr>query_to := Some ''https://example.com''\<rparr>)) = Num (of_int c)"
    then obtain c :: int where "300 \<le> c" "Num 200 = Num (real_of_int c)"
      by (auto simp: get_request_def n(2))
    then show False
      by simp
  qed
  have c: "(300::int) \<le> 301 \<and> (301::int) \<le> 308 \<and>
      StringToNumber (param (get_request ''301'')) = Num (of_int 301) \<and>
      (query_to (get_request ''301'') = None \<or> query_to (get_request ''301'') = Some [])"
    using n(1) by (simp add: get_request_def)
  show ?thesis
    using redirect_route_cases [THEN conjunct2, THEN conjunct2, THEN conjunct2, rule_format, OF a]
      redirect_route_cases [THEN conjunct2, THEN conjunct1, rule_format, OF b]
      redirect_route_cases [THEN conjunct2, THEN conjunct2, THEN conjunct1, rule_format, OF c]
    by simp
qed

text \<open>
  With the code 301 and a \<open>to\<close> parameter that is present and empty, the answer is 400, not
  a redirect. So "400 exactly when the code is invalid or \<open>to\<close> is absent" does not hold.
\<close>

theorem empty_target_counterexample:
  \<open>StringToNumber ''301'' = Num 301 \<and>
   query_to ((get_request ''301'')\<lparr>query_to := Some []\<rparr>) \<noteq> None \<and>
   redirect_route ((get_request ''301'')\<lparr>query_to := Some []\<rparr>)
     = Reply (Num 400) (Send ''Missing "to" query parameter for redirect target'')\<close>
  by (simp add: redirect_route_def get_request_def isValidStatusCode_def literal_eval double_eval)

text \<open>
  C8. In every handler a validation failure (a path value that is not a valid status code
  on \<open>/:code\<close>, a range with no valid code on \<open>/random/:range\<close>) gives the 400 answer at
  once: the handler has waited on no timer and decoded no body, and the answer is the same
  whatever the method, the \<open>sleep\<close> and \<open>body\<close> parameters, the request body and the
  runtime are.
\<close>

theorem validation_before_delay_and_body:
  "(param req \<notin> set reserved_A \<and> \<not> isValidStatusCode (PStr (param req)) \<longrightarrow>
      fst (code_route_A E req) = [] \<and> status_of (snd (code_route_A E req)) = Some (Num 400) \<and>
      code_route_A E' (req\<lparr>method_of := m, query_sleep := sl, query_body := qb, req_body := rb\<rparr>)
        = code_route_A E req) \<and>
   (param req \<notin> set reserved_B \<and> \<not> isValidStatusCode (PStr (param req)) \<longrightarrow>
      fst (code_route_B E req) = [] \<and> status_of (snd (code_route_B E req)) = Some (Num 400) \<and>
      code_route_B E' (req\<lparr>method_of := m, query_sleep := sl, query_body := qb, req_body := rb\<rparr>)
        = code_route_B E req) \<and>
   (parseStatusCodeRange (param req) = [] \<longrightarrow>
      fst (random_route_A E req) = [] \<and> status_of (snd (random_route_A E req)) = Some (Num 400) \<and>
      random_route_A E' (req\<lparr>method_of := m, query_sleep := sl, query_body := qb, req_body := rb\<rparr>)
        = random_route_A E req) \<and>
   (parseStatusCodeRange (param req) = [] \<longrightarrow>
      fst (random_route_B E req) = [] \<and> status_of (snd (random_route_B E req)) = Some (Num 400) \<and>
      random_route_B E' (req\<lparr>method_of := m, query_sleep := sl, query_body := qb, req_body := rb\<rparr>)
        = random_route_B E req)"
proof (intro conjI impI)
  assume a: "param req \<notin> set reserved_A \<and> \<not> isValidStatusCode (PStr (param req))"
  then show "fst (code_route_A E req) = []" "status_of (snd (code_route_A E req)) = Some (Num 400)"
    by (simp_all add: code_route_A_invalid)
  from a show "code_route_A E' (req\<lparr>method_of := m, query_sleep := sl, query_body := qb, req_body := rb\<rparr>)
      = code_route_A E req"
    by (simp add: code_route_A_invalid)
next
  assume b: "param req \<notin> set reserved_B \<and> \<not> isValidStatusCode (PStr (param req))"
  then show "fst (code_route_B E req) = []" "status_of (snd (code_route_B E req)) = Some (Num 400)"
    by (simp_all add: code_route_B_invalid)
  from b show "code_route_B E' (req\<lparr>method_of := m, query_sleep := sl, query_body := qb, req_body := rb\<rparr>)
      = code_route_B E req"
    by (simp add: code_route_B_invalid)
next
  assume "parseStatusCodeRange (param req) = []"
  then show "fst (random_route_A E req) = []" "status_of (snd (random_route_A E req)) = Some (Num 400)"
    "random_route_A E' (req\<lparr>method_of := m, query_sleep := sl, query_body := qb, req_body := rb\<rparr>)
      = random_route_A E req"
    by (simp_all add: random_route_A_def)
next
  assume "parseStatusCodeRange (param req) = []"
  then show "fst (random_route_B E req) = []" "status_of (snd (random_route_B E req)) = Some (Num 400)"
    "random_route_B E' (req\<lparr>method_of := m, query_sleep := sl, query_body := qb, req_body := rb\<rparr>)
      = random_route_B E req"
    by (simp_all add: random_route_B_def)
qed

text \<open>Requests that fail validation and carry a delay and two bodies.\<close>

theorem validation_before_delay_and_body_witness:
  "code_route_A test_env ((get_request ''600'')\<lparr>method_of := ''POST'', query_sleep := Some ''5000'',
       query_body := Some ''null'', req_body := Some (JObj [(''a'', JNull)])\<rparr>)
     = ([], Reply (Num 400) (Send ''Invalid HTTP status code'')) \<and>
   code_route_B test_env ((get_request ''600'')\<lparr>method_of := ''POST'', query_sleep := Some ''5000'',
       query_body := Some ''null'', req_body := Some (JObj [(''a'', JNull)])\<rparr>)
     = ([], Reply (Num 400) (Send ''Invalid HTTP status code'')) \<and>
   random_route_A test_env ((get_request ''700-650'')\<lparr>method_of := ''POST'', query_sleep := Some ''5000'',
       query_body := Some ''null'', req_body := Some (JObj [(''a'', JNull)])\<rparr>)
     = ([], Reply (Num 400) (Send ''Invalid range for random status codes'')) \<and>
   random_route_B test_env ((get_request ''700-650'')\<lparr>method_of := ''POST'', query_sleep := Some ''5000'',
       query_body := Some ''null'', req_body := Some (JObj [(''a'', JNull)])\<rparr>)
     = ([], Reply (Num 400) (Send ''Invalid range for random status codes''))"
proof -
  have c: "param (get_request ''600'') \<notin> set reserved_A \<and> \<not> isValidStatusCode (PStr (param (get_request ''600'')))"
    "param (get_request ''600'') \<notin> set reserved_B \<and> \<not> isValidStatusCode (PStr (param (get_request ''600'')))"
    by (simp_all add: get_request_def reserved_A_def reserved_B_def isValidStatusCode_def
        literal_eval double_eval)
  have "range_codes ''700-650'' = []"
    by (simp add: range_eval literal_eval double_eval)
  then have r: "parseStatusCodeRange (param (get_request ''700-650'')) = []"
    by (simp add: parseStatusCodeRange_range_codes get_request_def)
  note T = validation_before_delay_and_body [where E = test_env and E' = test_env
      and m = "''POST''" and sl = "Some ''5000''" and qb = "Some ''null''"
      and rb = "Some (JObj [(''a'', JNull)])"]
  have "code_route_A test_env (get_request ''600'') = ([], Reply (Num 400) (Send ''Invalid HTTP status code''))"
    using c(1) by (simp add: code_route_A_invalid)
  moreover have "code_route_B test_env (get_request ''600'') = ([], Reply (Num 400) (Send ''Invalid HTTP status code''))"
    using c(2) by (simp add: code_route_B_invalid)
  moreover have "random_route_A test_env (get_request ''700-650'')
      = ([], Reply (Num 400) (Send ''Invalid range for random status codes''))"
    "random_route_B test_env (get_request ''700-650'')
      = ([], Reply (Num 400) (Send ''Invalid range for random status codes''))"
    using r by (simp_all add: random_route_A_def random_route_B_def)
  ultimately show ?thesis
    using T [where req = "get_request ''600''", THEN conjunct1, rule_format, OF c(1)]
      T [where req = "get_request ''600''", THEN conjunct2, THEN conjunct1, rule_format, OF c(2)]
      T [where req = "get_request ''700-650''", THEN conjunct2, THEN conjunct2, THEN conjunct1, rule_format, OF r]
      T [where req = "get_request ''700-650''", THEN conjunct2, THEN conjunct2, THEN conjunct2, rule_format, OF r]
    by (simp only:)
qed

text \<open>
  C9. \<open>isValidStatusCode\<close> accepts every string whose \<open>Number\<close> coercion is an integer from
  100 to 599, not only three decimal digits: \<open>2e2\<close>, \<open>200\<close> between spaces, \<open>0200\<close> and
  \<open>200.0\<close> coerce to 200 and are accepted, as are \<open>3e2\<close> (300) and \<open>0x1F4\<close> (500), while
  \<open>200.5\<close>, \<open>6e2\<close>, \<open>2 00\<close> and \<open>abc\<close> are refused. For every path whose coercion is an
  integer \<open>c\<close> from 100 to 599, both \<open>/:code\<close> handlers answer with status \<open>c\<close>, and not
  with the error \<open>Invalid HTTP status code\<close>: \<open>/2e2\<close> gets 200 and \<open>/3e2\<close> gets 300.
\<close>

theorem isValidStatusCode_accepts_coercions:
  "isValidStatusCode (PStr s) = (\<exists>c::int. 100 \<le> c \<and> c \<le> 599 \<and> StringToNumber s = Num (of_int c)) \<and>
   StringToNumber ''2e2'' = Num 200 \<and> StringToNumber '' 200 '' = Num 200 \<and>
   StringToNumber ''0200'' = Num 200 \<and> StringToNumber ''200.0'' = Num 200 \<and>
   StringToNumber ''3e2'' = Num 300 \<and> StringToNumber '' 404 '' = Num 404 \<and>
   StringToNumber ''0500'' = Num 500 \<and> StringToNumber ''599.0'' = Num 599 \<and>
   StringToNumber ''0x1F4'' = Num 500 \<and>
   isValidStatusCode (PStr ''2e2'') \<and> isValidStatusCode (PStr '' 200 '') \<and>
   isValidStatusCode (PStr ''0200'') \<and> isValidStatusCode (PStr ''200.0'') \<and>
   isValidStatusCode (PStr ''3e2'') \<and> isValidStatusCode (PStr ''0x1F4'') \<and>
   \<not> isValidStatusCode (PStr ''200.5'') \<and> \<not> isValidStatusCode (PStr ''6e2'') \<and>
   \<not> isValidStatusCode (PStr ''2 00'') \<and> \<not> isValidStatusCode (PStr ''abc'') \<and>
   (\<forall>c::int. 100 \<le> c \<and> c \<le> 599 \<and> StringToNumber (param req) = Num (of_int c) \<longrightarrow>
      status_of (snd (code_route_A E req)) = Some (Num (of_int c)) \<and>
      status_of (snd (code_route_B E req)) = Some (Num (of_int c)) \<and>
      snd (code_route_A E req) \<noteq> Reply (Num 400) (Send ''Invalid HTTP status code'') \<and>
      snd (code_route_B E req) \<noteq> Reply (Num 400) (Send ''Invalid HTTP status code'')) \<and>
   (param req \<in> set [''2e2'', '' 200 '', ''0200'', ''200.0''] \<longrightarrow>
      status_of (snd (code_route_A E req)) = Some (Num 200) \<and>
      status_of (snd (code_route_B E req)) = Some (Num 200)) \<and>
   (param req = ''3e2'' \<longrightarrow>
      status_of (snd (code_route_A E req)) = Some (Num 300) \<and>
      status_of (snd (code_route_B E req)) = Some (Num 300))"
proof -
  have n: "StringToNumber ''2e2'' = Num 200" "StringToNumber '' 200 '' = Num 200"
    "StringToNumber ''0200'' = Num 200" "StringToNumber ''200.0'' = Num 200"
    by (simp_all add: literal_eval double_eval)
  have n': "StringToNumber ''3e2'' = Num 300" "StringToNumber '' 404 '' = Num 404"
    "StringToNumber ''0500'' = Num 500" "StringToNumber ''599.0'' = Num 599"
    "StringToNumber ''0x1F4'' = Num 500"
    by (simp_all add: literal_eval double_eval)
  have v: "isValidStatusCode (PStr ''2e2'')" "isValidStatusCode (PStr '' 200 '')"
    "isValidStatusCode (PStr ''0200'')" "isValidStatusCode (PStr ''200.0'')"
    "isValidStatusCode (PStr ''3e2'')" "isValidStatusCode (PStr ''0x1F4'')"
    using n n' by (simp_all add: isValidStatusCode_def)
  have r: "\<not> isValidStatusCode (PStr ''200.5'')" "\<not> isValidStatusCode (PStr ''6e2'')"
    "\<not> isValidStatusCode (PStr ''2 00'')" "\<not> isValidStatusCode (PStr ''abc'')"
    by (simp_all add: isValidStatusCode_def literal_eval double_eval)
  have g: "status_of (snd (code_route_A E req)) = Some (Num (of_int c)) \<and>
      status_of (snd (code_route_B E req)) = Some (Num (of_int c)) \<and>
      snd (code_route_A E req) \<noteq> Reply (Num 400) (Send ''Invalid HTTP status code'') \<and>
      snd (code_route_B E req) \<noteq> Reply (Num 400) (Send ''Invalid HTTP status code'')"
    if "100 \<le> c \<and> c \<le> 599 \<and> StringToNumber (param req) = Num (of_int c)" for c :: int
  proof -
    from that have "isValidStatusCode (PStr (param req))"
      using valid_iff [of "PStr (param req)"] by auto
    then show ?thesis
      using that by (simp add: code_route_valid_status code_route_valid_not_error)
  qed
  have a: "status_of (snd (code_route_A E req)) = Some (Num 200) \<and>
      status_of (snd (code_route_B E req)) = Some (Num 200)"
    if "param req \<in> set [''2e2'', '' 200 '', ''0200'', ''200.0'']"
  proof -
    from that have "100 \<le> (200::int) \<and> (200::int) \<le> 599 \<and> StringToNumber (param req) = Num (of_int 200)"
      using n by auto
    from g [OF this] show ?thesis
      by simp
  qed
  have b: "status_of (snd (code_route_A E req)) = Some (Num 300) \<and>
      status_of (snd (code_route_B E req)) = Some (Num 300)"
    if "param req = ''3e2''"
  proof -
    from that have "100 \<le> (300::int) \<and> (300::int) \<le> 599 \<and> StringToNumber (param req) = Num (of_int 300)"
      using n' by simp
    from g [OF this] show ?thesis
      by simp
  qed
  have i: "isValidStatusCode (PStr s) = (\<exists>c::int. 100 \<le> c \<and> c \<le> 599 \<and> StringToNumber s = Num (of_int c))"
    using valid_iff [of "PStr s"] by simp
  have G: "\<forall>c::int. 100 \<le> c \<and> c \<le> 599 \<and> StringToNumber (param req) = Num (of_int c) \<longrightarrow>
      status_of (snd (code_route_A E req)) = Some (Num (of_int c)) \<and>
      status_of (snd (code_route_B E req)) = Some (Num (of_int c)) \<and>
      snd (code_route_A E req) \<noteq> Reply (Num 400) (Send ''Invalid HTTP status code'') \<and>
      snd (code_route_B E req) \<noteq> Reply (Num 400) (Send ''Invalid HTTP status code'')"
    using g by blast
  have A: "param req \<in> set [''2e2'', '' 200 '', ''0200'', ''200.0''] \<longrightarrow>
      status_of (snd (code_route_A E req)) = Some (Num 200) \<and>
      status_of (snd (code_route_B E req)) = Some (Num 200)"
    using a by blast
  have B: "param req = ''3e2'' \<longrightarrow>
      status_of (snd (code_route_A E req)) = Some (Num 300) \<and>
      status_of (snd (code_route_B E req)) = Some (Num 300)"
    using b by blast
  from i n n' v r G A B show ?thesis
    by (intro conjI)
qed

text \<open>The handlers run on \<open>/3e2\<close>, on \<open>404\<close> between spaces and on \<open>/2e2\<close>.\<close>

theorem isValidStatusCode_accepts_coercions_witness:
  "status_of (snd (code_route_A test_env (get_request ''3e2''))) = Some (Num 300) \<and>
   status_of (snd (code_route_B test_env (get_request ''3e2''))) = Some (Num 300) \<and>
   status_of (snd (code_route_A test_env (get_request '' 404 ''))) = Some (Num 404) \<and>
   status_of (snd (code_route_B test_env (get_request '' 404 ''))) = Some (Num 404) \<and>
   status_of (snd (code_route_A test_env (get_request ''2e2''))) = Some (Num 200) \<and>
   status_of (snd (code_route_B test_env (get_request ''2e2''))) = Some (Num 200)"
proof -
  note T = isValidStatusCode_accepts_coercions [where E = test_env and s = "''3e2''"]
  note N = T [where req = "get_request ''3e2''"]
  have n3: "StringToNumber ''3e2'' = Num 300"
    using N by (elim conjE)
  have n4: "StringToNumber '' 404 '' = Num 404"
    using N by (elim conjE)
  have G: "100 \<le> c \<and> c \<le> 599 \<and> StringToNumber (param req) = Num (of_int c) \<Longrightarrow>
      status_of (snd (code_route_A test_env req)) = Some (Num (of_int c)) \<and>
      status_of (snd (code_route_B test_env req)) = Some (Num (of_int c))" for req and c :: int
    using T [where req = req] by (elim conjE) simp
  have h3: "100 \<le> (300::int) \<and> (300::int) \<le> 599 \<and> StringToNumber (param (get_request ''3e2'')) = Num (of_int 300)"
    using n3 by (simp add: get_request_def)
  have h4: "100 \<le> (404::int) \<and> (404::int) \<le> 599 \<and> StringToNumber (param (get_request '' 404 '')) = Num (of_int 404)"
    using n4 by (simp add: get_request_def)
  have h2: "param (get_request ''2e2'') \<in> set [''2e2'', '' 200 '', ''0200'', ''200.0'']"
    by (simp add: get_request_def)
  have 2: "status_of (snd (code_route_A test_env (get_request ''2e2''))) = Some (Num 200) \<and>
      status_of (snd (code_route_B test_env (get_request ''2e2''))) = Some (Num 200)"
    using T [where req = "get_request ''2e2''"] h2 by (elim conjE) (simp only: simp_thms)
  from G [OF h3] G [OF h4] 2 show ?thesis
    by simp
qed

text \<open>
  C10. On \<open>/:code\<close> with a valid code and a \<open>body\<close> query parameter, in both copies: when
  the JSON decoder fails or yields \<open>null\<close>, the raw string is the body, sent as plain text;
  a decoded boolean, number or string is sent as plain text through \<open>String\<close>; a decoded
  array or object is sent as JSON, and these are the only cases with a JSON response.
\<close>

theorem body_parameter_reply:
  "isValidStatusCode (PStr (param req)) \<and> query_body req = Some b \<longrightarrow>
     snd (code_route_B E req) = snd (code_route_A E req) \<and>
     (JSON_parse E b = None \<or> JSON_parse E b = Some JNull \<longrightarrow>
        snd (code_route_A E req) = Reply (StringToNumber (param req)) (Text b)) \<and>
     (\<forall>v. JSON_parse E b = Some (JBool v) \<longrightarrow>
        snd (code_route_A E req) = Reply (StringToNumber (param req)) (Text (if v then ''true'' else ''false''))) \<and>
     (\<forall>n. JSON_parse E b = Some (JNum n) \<longrightarrow>
        snd (code_route_A E req) = Reply (StringToNumber (param req)) (Text (Number_toString E n))) \<and>
     (\<forall>t. JSON_parse E b = Some (JStr t) \<longrightarrow>
        snd (code_route_A E req) = Reply (StringToNumber (param req)) (Text t)) \<and>
     (\<forall>xs. JSON_parse E b = Some (JArr xs) \<longrightarrow>
        snd (code_route_A E req) = Reply (StringToNumber (param req)) (Json (JArr xs))) \<and>
     (\<forall>kvs. JSON_parse E b = Some (JObj kvs) \<longrightarrow>
        snd (code_route_A E req) = Reply (StringToNumber (param req)) (Json (JObj kvs))) \<and>
     ((\<exists>v. snd (code_route_A E req) = Reply (StringToNumber (param req)) (Json v)) \<longleftrightarrow>
        (\<exists>xs. JSON_parse E b = Some (JArr xs)) \<or> (\<exists>kvs. JSON_parse E b = Some (JObj kvs)))"
proof
  assume a: "isValidStatusCode (PStr (param req)) \<and> query_body req = Some b"
  then have r: "snd (code_route_A E req)
      = send_custom E (StringToNumber (param req)) (nullish_or (JSON_parse E b) (JStr b))"
    "snd (code_route_B E req)
      = send_custom E (StringToNumber (param req)) (nullish_or (JSON_parse E b) (JStr b))"
    by (simp_all add: code_route_body_param)
  show "snd (code_route_B E req) = snd (code_route_A E req) \<and>
     (JSON_parse E b = None \<or> JSON_parse E b = Some JNull \<longrightarrow>
        snd (code_route_A E req) = Reply (StringToNumber (param req)) (Text b)) \<and>
     (\<forall>v. JSON_parse E b = Some (JBool v) \<longrightarrow>
        snd (code_route_A E req) = Reply (StringToNumber (param req)) (Text (if v then ''true'' else ''false''))) \<and>
     (\<forall>n. JSON_parse E b = Some (JNum n) \<longrightarrow>
        snd (code_route_A E req) = Reply (StringToNumber (param req)) (Text (Number_toString E n))) \<and>
     (\<forall>t. JSON_parse E b = Some (JStr t) \<longrightarrow>
        snd (code_route_A E req) = Reply (StringToNumber (param req)) (Text t)) \<and>
     (\<forall>xs. JSON_parse E b = Some (JArr xs) \<longrightarrow>
        snd (code_route_A E req) = Reply (StringToNumber (param req)) (Json (JArr xs))) \<and>
     (\<forall>kvs. JSON_parse E b = Some (JObj kvs) \<longrightarrow>
        snd (code_route_A E req) = Reply (StringToNumber (param req)) (Json (JObj kvs))) \<and>
     ((\<exists>v. snd (code_route_A E req) = Reply (StringToNumber (param req)) (Json v)) \<longleftrightarrow>
        (\<exists>xs. JSON_parse E b = Some (JArr xs)) \<or> (\<exists>kvs. JSON_parse E b = Some (JObj kvs)))"
  proof (cases "JSON_parse E b")
    case None
    then show ?thesis
      by (simp add: r send_custom_def nullish_or_def)
  next
    case (Some v)
    then show ?thesis
      by (cases v) (simp_all add: r send_custom_def nullish_or_def)
  qed
qed

text \<open>
  The bodies \<open>null\<close>, \<open>hello\<close>, \<open>true\<close>, \<open>42\<close>, a quoted \<open>hi\<close>, the array \<open>[1,2]\<close>
  and an object with the key \<open>a\<close>, on \<open>/200\<close>.
\<close>

theorem body_parameter_reply_witness:
  \<open>snd (code_route_A test_env ((get_request ''200'')\<lparr>query_body := Some ''null''\<rparr>))
     = Reply (Num 200) (Text ''null'') \<and>
   snd (code_route_B test_env ((get_request ''200'')\<lparr>query_body := Some ''null''\<rparr>))
     = Reply (Num 200) (Text ''null'') \<and>
   snd (code_route_A test_env ((get_request ''200'')\<lparr>query_body := Some ''hello''\<rparr>))
     = Reply (Num 200) (Text ''hello'') \<and>
   snd (code_route_A test_env ((get_request ''200'')\<lparr>query_body := Some ''true''\<rparr>))
     = Reply (Num 200) (Text ''true'') \<and>
   snd (code_route_A test_env ((get_request ''200'')\<lparr>query_body := Some ''42''\<rparr>))
     = Reply (Num 200) (Text ''42'') \<and>
   snd (code_route_A test_env ((get_request ''200'')\<lparr>query_body := Some ''"hi"''\<rparr>))
     = Reply (Num 200) (Text ''hi'') \<and>
   snd (code_route_A test_env ((get_request ''200'')\<lparr>query_body := Some ''[1,2]''\<rparr>))
     = Reply (Num 200) (Json (JArr [JNum (Num 1), JNum (Num 2)])) \<and>
   snd (code_route_A test_env ((get_request ''200'')\<lparr>query_body := Some ''{"a":1}''\<rparr>))
     = Reply (Num 200) (Json (JObj [(''a'', JNum (Num 1))]))\<close>
proof -
  have v: "isValidStatusCode (PStr (param ((get_request ''200'')\<lparr>query_body := Some s\<rparr>))) \<and>
      query_body ((get_request ''200'')\<lparr>query_body := Some s\<rparr>) = Some s" for s
    by (simp add: get_request_def isValidStatusCode_def test_200)
  have n: "StringToNumber (param ((get_request ''200'')\<lparr>query_body := Some s\<rparr>)) = Num 200" for s
    by (simp add: get_request_def test_200)
  note T = body_parameter_reply [where E = test_env, THEN mp, OF v]
  have d: \<open>JSON_parse test_env ''null'' = None \<or> JSON_parse test_env ''null'' = Some JNull\<close>
    \<open>JSON_parse test_env ''hello'' = None \<or> JSON_parse test_env ''hello'' = Some JNull\<close>
    \<open>JSON_parse test_env ''true'' = Some (JBool True)\<close>
    \<open>JSON_parse test_env ''42'' = Some (JNum (Num 42))\<close>
    \<open>JSON_parse test_env ''"hi"'' = Some (JStr ''hi'')\<close>
    \<open>JSON_parse test_env ''[1,2]'' = Some (JArr [JNum (Num 1), JNum (Num 2)])\<close>
    \<open>JSON_parse test_env ''{"a":1}'' = Some (JObj [(''a'', JNum (Num 1))])\<close>
    by (simp_all add: test_env_def sample_JSON_parse_def)
  have s: "Number_toString test_env (Num 42) = ''42''"
    by (simp add: Number_toString_def show_nat.simps digit_char_def)
  have 1: "snd (code_route_A test_env ((get_request ''200'')\<lparr>query_body := Some ''null''\<rparr>))
     = Reply (Num 200) (Text ''null'')"
    using T [of "''null''", THEN conjunct2, THEN conjunct1, rule_format, OF d(1)] by (simp only: n)
  have 2: "snd (code_route_B test_env ((get_request ''200'')\<lparr>query_body := Some ''null''\<rparr>))
     = Reply (Num 200) (Text ''null'')"
    using T [of "''null''", THEN conjunct1] 1 by simp
  have 3: "snd (code_route_A test_env ((get_request ''200'')\<lparr>query_body := Some ''hello''\<rparr>))
     = Reply (Num 200) (Text ''hello'')"
    using T [of "''hello''", THEN conjunct2, THEN conjunct1, rule_format, OF d(2)] by (simp only: n)
  have 4: "snd (code_route_A test_env ((get_request ''200'')\<lparr>query_body := Some ''true''\<rparr>))
     = Reply (Num 200) (Text ''true'')"
    using T [of "''true''", THEN conjunct2, THEN conjunct2, THEN conjunct1, rule_format, OF d(3)]
    by (simp add: get_request_def test_200)
  have 5: "snd (code_route_A test_env ((get_request ''200'')\<lparr>query_body := Some ''42''\<rparr>))
     = Reply (Num 200) (Text ''42'')"
    using T [of "''42''", THEN conjunct2, THEN conjunct2, THEN conjunct2, THEN conjunct1, rule_format, OF d(4)]
    by (simp only: n s)
  have 6: \<open>snd (code_route_A test_env ((get_request ''200'')\<lparr>query_body := Some ''"hi"''\<rparr>))
     = Reply (Num 200) (Text ''hi'')\<close>
    using T [THEN conjunct2, THEN conjunct2, THEN conjunct2, THEN conjunct2, THEN conjunct1, rule_format,
        OF d(5)]
    by (simp only: n)
  have 7: "snd (code_route_A test_env ((get_request ''200'')\<lparr>query_body := Some ''[1,2]''\<rparr>))
     = Reply (Num 200) (Json (JArr [JNum (Num 1), JNum (Num 2)]))"
    using T [of "''[1,2]''", THEN conjunct2, THEN conjunct2, THEN conjunct2, THEN conjunct2, THEN conjunct2,
        THEN conjunct1, rule_format, OF d(6)]
    by (simp only: n)
  have 8: \<open>snd (code_route_A test_env ((get_request ''200'')\<lparr>query_body := Some ''{"a":1}''\<rparr>))
     = Reply (Num 200) (Json (JObj [(''a'', JNum (Num 1))]))\<close>
    using T [THEN conjunct2, THEN conjunct2, THEN conjunct2, THEN conjunct2, THEN conjunct2,
        THEN conjunct2, THEN conjunct1, rule_format, OF d(7)]
    by (simp only: n)
  from 1 2 3 4 5 6 7 8 show ?thesis
    by (intro conjI)
qed

end
